theory Spec2Isabelle
  imports Complex_Main
begin

unbundle bit_operations_syntax

section \<open>Hand distance estimator: values, errors and the outside world\<close>

text \<open>
  The program is \<^verbatim>\<open>hand_estimation.py\<close>. Its numbers are modelled as follows: Python
  floats as \<^typ>\<open>real\<close> numbers (arithmetic is exact; there is no rounding, \<^verbatim>\<open>inf\<close> or
  \<^verbatim>\<open>nan\<close>), Python ints as \<^typ>\<open>int\<close>. Strings are \<^typ>\<open>string\<close>, a character standing for
  a code point below 256. The camera, the hand tracker, the keyboard and the console are
  not part of the program: what they deliver is an argument of the model (a list of typed
  lines, a list of frames), what the program does to them is recorded in a \<open>world\<close>.
  Releasing the camera and closing the windows leave no trace in the model.

  Every exception the code can meet is a value of \<open>error\<close>.
\<close>

datatype error = ValueError | IndexError | ZeroDivisionError | FileNotFoundError

text \<open>
  A call either returns, raises, or is still inside one of its \<^verbatim>\<open>while True\<close> loops when
  the recorded console lines or camera frames are used up (\<open>Waits\<close>): the lists are the
  part of an unbounded interaction that has happened so far.
\<close>

datatype 'a outcome = Returns 'a | Raises error | Waits

subsection \<open>Arithmetic of the runtime\<close>

definition py_truediv :: "real \<Rightarrow> real \<Rightarrow> error + real" where
  "py_truediv a b = (if b = 0 then Inl ZeroDivisionError else Inr (a / b))"

text \<open>\<^verbatim>\<open>int(v)\<close> of a float drops the fractional part (towards zero).\<close>

definition py_int :: "real \<Rightarrow> int" where
  "py_int v = (if 0 \<le> v then \<lfloor>v\<rfloor> else \<lceil>v\<rceil>)"

text \<open>\<^verbatim>\<open>min\<close> and \<^verbatim>\<open>max\<close> of a list keep the first extreme item; an empty list raises.\<close>

fun py_min :: "real list \<Rightarrow> error + real" where
  "py_min [] = Inl ValueError"
| "py_min (v # vs) = Inr (foldl (\<lambda>m u. if u < m then u else m) v vs)"

fun py_max :: "real list \<Rightarrow> error + real" where
  "py_max [] = Inl ValueError"
| "py_max (v # vs) = Inr (foldl (\<lambda>m u. if u > m then u else m) v vs)"

subsection \<open>Landmarks and frames\<close>

text \<open>The 21 members of \<^verbatim>\<open>mp.solutions.hands.HandLandmark\<close>, in the order of their values.\<close>

datatype HandLandmark =
    WRIST
  | THUMB_CMC | THUMB_MCP | THUMB_IP | THUMB_TIP
  | INDEX_FINGER_MCP | INDEX_FINGER_PIP | INDEX_FINGER_DIP | INDEX_FINGER_TIP
  | MIDDLE_FINGER_MCP | MIDDLE_FINGER_PIP | MIDDLE_FINGER_DIP | MIDDLE_FINGER_TIP
  | RING_FINGER_MCP | RING_FINGER_PIP | RING_FINGER_DIP | RING_FINGER_TIP
  | PINKY_MCP | PINKY_PIP | PINKY_DIP | PINKY_TIP

record point =
  pt_x :: real
  pt_y :: real
  pt_z :: real

text \<open>
  \<^verbatim>\<open>hand_landmarks.landmark\<close> holds one point for each member of the enumeration and is
  indexed by it.
\<close>

record hand_landmarks =
  landmark :: "HandLandmark \<Rightarrow> point"

subsection \<open>Strings of the runtime\<close>

text \<open>
  \<^verbatim>\<open>str.strip()\<close> removes white space from both ends. Among the characters below 256
  these are tab to carriage return, the four separators 28 to 31, the space, 133 and 160.
\<close>

definition py_isspace :: "char \<Rightarrow> bool" where
  "py_isspace c =
     (let n = (of_char c :: nat)
      in (9 \<le> n \<and> n \<le> 13) \<or> (28 \<le> n \<and> n \<le> 32) \<or> n = 133 \<or> n = 160)"

definition py_strip :: "string \<Rightarrow> string" where
  "py_strip s = rev (dropWhile py_isspace (rev (dropWhile py_isspace s)))"

text \<open>\<^verbatim>\<open>str.lower()\<close> on the characters below 256.\<close>

definition py_lower_char :: "char \<Rightarrow> char" where
  "py_lower_char c =
     (let n = (of_char c :: nat)
      in if (65 \<le> n \<and> n \<le> 90) \<or> (192 \<le> n \<and> n \<le> 222 \<and> n \<noteq> 215)
         then char_of (n + 32) else c)"

definition py_lower :: "string \<Rightarrow> string" where
  "py_lower s = map py_lower_char s"

text \<open>
  \<^verbatim>\<open>f.readline()\<close> on the unread rest of a text file: the line up to and including its
  newline (all that is left when there is none, the empty string at the end of the file),
  and what remains unread. The content of a file is its text as the text mode delivers it,
  every line end being the newline character.
\<close>

definition readline :: "string \<Rightarrow> string \<times> string" where
  "readline s =
     (let body = takeWhile (\<lambda>c. c \<noteq> CHR 0x0A) s;
          rest = dropWhile (\<lambda>c. c \<noteq> CHR 0x0A) s
      in case rest of [] \<Rightarrow> (body, []) | nl # rest' \<Rightarrow> (body @ [nl], rest'))"

text \<open>
  \<^verbatim>\<open>float(s)\<close> of a string either gives a float or raises \<^verbatim>\<open>ValueError\<close>. Which strings
  are numerals is the runtime's business: the parser is a parameter \<open>pyfloat\<close> of the
  model, with \<open>None\<close> for the strings Python rejects. In the same way \<open>fmt\<close> stands for
  the text that an f-string gives a float (\<^verbatim>\<open>f"{v}"\<close>).
\<close>

definition py_float :: "(string \<Rightarrow> real option) \<Rightarrow> string \<Rightarrow> error + real" where
  "py_float pyfloat s = (case pyfloat s of None \<Rightarrow> Inl ValueError | Some v \<Rightarrow> Inr v)"

subsection \<open>Console, calibration file, windows and camera\<close>

text \<open>Every \<^verbatim>\<open>print\<close> of the program, and the prompts of its two \<^verbatim>\<open>input\<close> calls.\<close>

datatype message =
    StartingCalibration
  | PromptHandWidth
  | EnterPositiveNumber
  | InvalidNumber
  | PlaceHandAtDistance
  | EnsurePalmFacing
  | PressCToCapture
  | CalibrationSuccessful real
  | SavedToFile
  | CouldNotMeasure
  | PromptChoice
  | LoadedCalibration
  | FileCorrupt
  | InvalidChoice
  | NoCalibrationFile
  | CouldNotObtain
  | StartingEstimation
  | ProgramFinished

text \<open>What is drawn on a frame before it is shown (colours and fonts are left out).\<close>

datatype overlay =
    Rectangle "int \<times> int" "int \<times> int"
  | PixelWidthText int "int \<times> int"
  | PlaceHandText
  | DrawLandmarks hand_landmarks
  | DistanceText real
  | TooCloseText "int \<times> int"

text \<open>
  The state outside the process: the content of \<^verbatim>\<open>calibration_data.txt\<close> (\<open>None\<close> when
  the file does not exist), what has been printed, and the annotated frames shown so far.
\<close>

record world =
  calibration_file :: "string option"
  stdout :: "message list"
  shown :: "overlay list list"

definition print :: "message \<Rightarrow> world \<Rightarrow> world" where
  "print m w = w\<lparr>stdout := stdout w @ [m]\<rparr>"

definition imshow :: "overlay list \<Rightarrow> world \<Rightarrow> world" where
  "imshow ovs w = w\<lparr>shown := shown w @ [ovs]\<rparr>"

definition write_file :: "string \<Rightarrow> world \<Rightarrow> world" where
  "write_file content w = w\<lparr>calibration_file := Some content\<rparr>"

text \<open>
  What one pass of a capture loop gets from its surroundings: whether the camera is open
  (asked by the runtime loop only), whether \<^verbatim>\<open>cap.read()\<close> delivered an image, the shape
  of the image, the hands found in the mirrored image (\<^verbatim>\<open>results.multi_hand_landmarks\<close>,
  empty for \<^verbatim>\<open>None\<close>), and the value of \<^verbatim>\<open>cv2.waitKey(5)\<close>.
\<close>

record frame =
  is_opened :: bool
  success :: bool
  img_w :: int
  img_h :: int
  multi_hand_landmarks :: "hand_landmarks list"
  key :: int

text \<open>How one pass through a loop body ends: the next pass, a \<^verbatim>\<open>break\<close>, or an exception.\<close>

datatype 'a pass = Continue world | Break 'a world | Abort error world

fun world_after :: "'a pass \<Rightarrow> world" where
  "world_after (Continue w) = w"
| "world_after (Break v w) = w"
| "world_after (Abort e w) = w"

text \<open>\<^verbatim>\<open>ord(c)\<close> of a one-character string.\<close>

definition ord :: "char \<Rightarrow> int" where
  "ord c = of_char c"

definition CALIBRATION_FILE :: string where
  "CALIBRATION_FILE = ''calibration_data.txt''"

definition KNOWN_DISTANCE_FOR_CALIBRATION :: real where
  "KNOWN_DISTANCE_FOR_CALIBRATION = 30.0"

section \<open>Helper functions\<close>

definition get_hand_details ::
  "hand_landmarks \<Rightarrow> int \<Rightarrow> int \<Rightarrow> error + (int \<times> (int \<times> int \<times> int \<times> int))" where
  "get_hand_details hl image_width image_height =
     (let points = landmark hl;
          wrist_pt = points WRIST;
          index_mcp_pt = points INDEX_FINGER_MCP;
          pinky_mcp_pt = points PINKY_MCP;
          x_coords = map (\<lambda>p. pt_x p * of_int image_width) [wrist_pt, index_mcp_pt, pinky_mcp_pt];
          y_coords = map (\<lambda>p. pt_y p * of_int image_height) [wrist_pt, index_mcp_pt, pinky_mcp_pt]
      in (case py_min x_coords of Inl e \<Rightarrow> Inl e | Inr xlo \<Rightarrow>
         (case py_max x_coords of Inl e \<Rightarrow> Inl e | Inr xhi \<Rightarrow>
         (case py_min y_coords of Inl e \<Rightarrow> Inl e | Inr ylo \<Rightarrow>
         (case py_max y_coords of Inl e \<Rightarrow> Inl e | Inr yhi \<Rightarrow>
           (let x_min = py_int xlo; x_max = py_int xhi;
                y_min = py_int ylo; y_max = py_int yhi;
                pixel_width = \<bar>x_max - x_min\<bar>
            in Inr (pixel_width, (x_min, y_min, x_max, y_max))))))))"

definition estimate_distance :: "real \<Rightarrow> real \<Rightarrow> real \<Rightarrow> error + real" where
  "estimate_distance known_width_cm focal_length pixel_width =
     (if pixel_width = 0 then Inr 0
      else py_truediv (known_width_cm * focal_length) pixel_width)"

section \<open>Calibration\<close>

text \<open>
  The loop that asks for the hand width (lines 55 to 62), over the lines the user types.
\<close>

fun ask_hand_width ::
  "(string \<Rightarrow> real option) \<Rightarrow> world \<Rightarrow> string list \<Rightarrow> real outcome \<times> world \<times> string list" where
  "ask_hand_width pyfloat w [] = (Waits, print PromptHandWidth w, [])"
| "ask_hand_width pyfloat w (line # lines) =
     (case py_float pyfloat line of
        Inr known_hand_width \<Rightarrow>
          if known_hand_width > 0
          then (Returns known_hand_width, print PromptHandWidth w, lines)
          else ask_hand_width pyfloat (print EnterPositiveNumber (print PromptHandWidth w)) lines
      | Inl e \<Rightarrow>
          if e = ValueError
          then ask_hand_width pyfloat (print InvalidNumber (print PromptHandWidth w)) lines
          else (Raises e, print PromptHandWidth w, lines))"

text \<open>What the calibration window shows for a frame (lines 83 to 90).\<close>

definition calibration_overlays :: "frame \<Rightarrow> error + overlay list" where
  "calibration_overlays f =
     (case multi_hand_landmarks f of
        [] \<Rightarrow> Inr [PlaceHandText]
      | hand_landmarks # _ \<Rightarrow>
          (case get_hand_details hand_landmarks (img_w f) (img_h f) of
             Inl e \<Rightarrow> Inl e
           | Inr (pixel_width, (x_min, y_min, x_max, y_max)) \<Rightarrow>
               Inr [Rectangle (x_min, y_min) (x_max, y_max),
                    PixelWidthText pixel_width (x_min, y_min - 10),
                    PlaceHandText]))"

text \<open>
  The text that lines 98 to 100 write to the calibration file: the focal length and the
  hand width, each followed by a newline.
\<close>

definition calibration_text :: "(real \<Rightarrow> string) \<Rightarrow> real \<Rightarrow> real \<Rightarrow> string" where
  "calibration_text fmt focal_length known_hand_width =
     fmt focal_length @ [CHR 0x0A] @ fmt known_hand_width @ [CHR 0x0A]"

text \<open>One pass through the body of the capture loop (lines 74 to 106).\<close>

definition capture_pass :: "(real \<Rightarrow> string) \<Rightarrow> real \<Rightarrow> frame \<Rightarrow> world \<Rightarrow> real pass" where
  "capture_pass fmt known_hand_width f w =
     (if \<not> success f then Continue w
      else
        (case calibration_overlays f of
           Inl e \<Rightarrow> Abort e w
         | Inr ovs \<Rightarrow>
             (let w1 = imshow ovs w in
              if (key f AND 0xFF) = ord CHR ''c'' \<and> multi_hand_landmarks f \<noteq> [] then
                (case get_hand_details (hd (multi_hand_landmarks f)) (img_w f) (img_h f) of
                   Inl e \<Rightarrow> Abort e w1
                 | Inr (pixel_width, _) \<Rightarrow>
                     if pixel_width > 0 then
                       (case py_truediv (of_int pixel_width * KNOWN_DISTANCE_FOR_CALIBRATION)
                               known_hand_width of
                          Inl e \<Rightarrow> Abort e w1
                        | Inr focal_length \<Rightarrow>
                            Break focal_length
                              (print SavedToFile
                                (print (CalibrationSuccessful focal_length)
                                  (write_file (calibration_text fmt focal_length known_hand_width)
                                     w1))))
                     else Continue (print CouldNotMeasure w1))
              else Continue w1)))"

fun capture_loop ::
  "(real \<Rightarrow> string) \<Rightarrow> real \<Rightarrow> world \<Rightarrow> frame list \<Rightarrow> real outcome \<times> world \<times> frame list" where
  "capture_loop fmt known_hand_width w [] = (Waits, w, [])"
| "capture_loop fmt known_hand_width w (f # frames) =
     (case capture_pass fmt known_hand_width f w of
        Continue w' \<Rightarrow> capture_loop fmt known_hand_width w' frames
      | Break focal_length w' \<Rightarrow> (Returns focal_length, w', frames)
      | Abort e w' \<Rightarrow> (Raises e, w', frames))"

definition calibrate ::
  "(real \<Rightarrow> string) \<Rightarrow> (string \<Rightarrow> real option) \<Rightarrow> world \<Rightarrow> string list \<Rightarrow> frame list
     \<Rightarrow> (real \<times> real) outcome \<times> world \<times> string list \<times> frame list" where
  "calibrate fmt pyfloat w lines frames =
     (case ask_hand_width pyfloat (print StartingCalibration w) lines of
        (Raises e, w1, lines1) \<Rightarrow> (Raises e, w1, lines1, frames)
      | (Waits, w1, lines1) \<Rightarrow> (Waits, w1, lines1, frames)
      | (Returns known_hand_width, w1, lines1) \<Rightarrow>
          (case capture_loop fmt known_hand_width
                  (print PressCToCapture (print EnsurePalmFacing (print PlaceHandAtDistance w1)))
                  frames of
             (Raises e, w2, frames2) \<Rightarrow> (Raises e, w2, lines1, frames2)
           | (Waits, w2, frames2) \<Rightarrow> (Waits, w2, lines1, frames2)
           | (Returns focal_length, w2, frames2) \<Rightarrow>
               (Returns (focal_length, known_hand_width), w2, lines1, frames2)))"

text \<open>The body of the \<^verbatim>\<open>try\<close> block that reads the calibration file (lines 124 to 126).\<close>

definition read_calibration_file :: "(string \<Rightarrow> real option) \<Rightarrow> world \<Rightarrow> error + (real \<times> real)" where
  "read_calibration_file pyfloat w =
     (case calibration_file w of
        None \<Rightarrow> Inl FileNotFoundError
      | Some content \<Rightarrow>
          (let (line1, rest) = readline content in
           case py_float pyfloat (py_strip line1) of
             Inl e \<Rightarrow> Inl e
           | Inr focal_length \<Rightarrow>
               (let (line2, rest') = readline rest in
                case py_float pyfloat (py_strip line2) of
                  Inl e \<Rightarrow> Inl e
                | Inr known_width \<Rightarrow> Inr (focal_length, known_width))))"

text \<open>
  The two results of \<^verbatim>\<open>get_calibration_data\<close> are variables that start as \<^verbatim>\<open>None\<close>;
  a pair that \<^verbatim>\<open>calibrate\<close> returns holds two numbers.
\<close>

fun returned_pair ::
  "(real \<times> real) outcome \<times> world \<times> string list \<times> frame list
     \<Rightarrow> (real option \<times> real option) outcome \<times> world \<times> string list \<times> frame list" where
  "returned_pair (Returns (focal_length, known_width), rest) =
     (Returns (Some focal_length, Some known_width), rest)"
| "returned_pair (Raises e, rest) = (Raises e, rest)"
| "returned_pair (Waits, rest) = (Waits, rest)"

text \<open>The loop that asks whether to reuse the stored calibration (lines 120 to 135).\<close>

fun choice_loop ::
  "(real \<Rightarrow> string) \<Rightarrow> (string \<Rightarrow> real option) \<Rightarrow> world \<Rightarrow> string list \<Rightarrow> frame list
     \<Rightarrow> (real option \<times> real option) outcome \<times> world \<times> string list \<times> frame list" where
  "choice_loop fmt pyfloat w [] frames = (Waits, print PromptChoice w, [], frames)"
| "choice_loop fmt pyfloat w (line # lines) frames =
     (let choice = py_lower line; w1 = print PromptChoice w in
      if choice = ''y'' then
        (case read_calibration_file pyfloat w1 of
           Inr (focal_length, known_width) \<Rightarrow>
             (Returns (Some focal_length, Some known_width), print LoadedCalibration w1, lines, frames)
         | Inl e \<Rightarrow>
             if e = ValueError \<or> e = IndexError
             then returned_pair (calibrate fmt pyfloat (print FileCorrupt w1) lines frames)
             else (Raises e, w1, lines, frames))
      else if choice = ''n'' then returned_pair (calibrate fmt pyfloat w1 lines frames)
      else choice_loop fmt pyfloat (print InvalidChoice w1) lines frames)"

definition get_calibration_data ::
  "(real \<Rightarrow> string) \<Rightarrow> (string \<Rightarrow> real option) \<Rightarrow> world \<Rightarrow> string list \<Rightarrow> frame list
     \<Rightarrow> (real option \<times> real option) outcome \<times> world \<times> string list \<times> frame list" where
  "get_calibration_data fmt pyfloat w lines frames =
     (if calibration_file w \<noteq> None then choice_loop fmt pyfloat w lines frames
      else returned_pair (calibrate fmt pyfloat (print NoCalibrationFile w) lines frames))"

section \<open>The runtime loop\<close>

text \<open>What the estimator window shows for a frame (lines 171 to 192).\<close>

definition runtime_overlays :: "real \<Rightarrow> real \<Rightarrow> frame \<Rightarrow> error + overlay list" where
  "runtime_overlays focal_length known_hand_width f =
     (case multi_hand_landmarks f of
        [] \<Rightarrow> Inr []
      | hand_landmarks # _ \<Rightarrow>
          (case get_hand_details hand_landmarks (img_w f) (img_h f) of
             Inl e \<Rightarrow> Inl e
           | Inr (pixel_width, (x_min, y_min, x_max, y_max)) \<Rightarrow>
               if pixel_width > 0 then
                 (case estimate_distance known_hand_width focal_length (of_int pixel_width) of
                    Inl e \<Rightarrow> Inl e
                  | Inr distance \<Rightarrow>
                      Inr ([DrawLandmarks hand_landmarks,
                            Rectangle (x_min, y_min) (x_max, y_max),
                            DistanceText distance]
                           @ (if distance < 60
                              then [TooCloseText (img_w f div 2 - 200, img_h f div 2)]
                              else [])))
               else Inr [DrawLandmarks hand_landmarks, Rectangle (x_min, y_min) (x_max, y_max)]))"

text \<open>One pass through the body of the runtime loop (lines 161 to 197).\<close>

definition runtime_pass :: "real \<Rightarrow> real \<Rightarrow> frame \<Rightarrow> world \<Rightarrow> unit pass" where
  "runtime_pass focal_length known_hand_width f w =
     (if \<not> success f then Continue w
      else
        (case runtime_overlays focal_length known_hand_width f of
           Inl e \<Rightarrow> Abort e w
         | Inr ovs \<Rightarrow>
             (let w1 = imshow ovs w in
              if (key f AND 0xFF) = ord CHR ''q'' then Break () w1 else Continue w1)))"

fun runtime_loop ::
  "real \<Rightarrow> real \<Rightarrow> world \<Rightarrow> frame list \<Rightarrow> unit outcome \<times> world \<times> frame list" where
  "runtime_loop focal_length known_hand_width w [] = (Waits, w, [])"
| "runtime_loop focal_length known_hand_width w (f # frames) =
     (if \<not> is_opened f then (Returns (), w, frames)
      else
        (case runtime_pass focal_length known_hand_width f w of
           Continue w' \<Rightarrow> runtime_loop focal_length known_hand_width w' frames
         | Break u w' \<Rightarrow> (Returns (), w', frames)
         | Abort e w' \<Rightarrow> (Raises e, w', frames)))"

text \<open>
  In \<^verbatim>\<open>main\<close> the test \<^verbatim>\<open>focal_length is None or known_hand_width is None\<close> is the
  last case below: every pair other than two numbers.
\<close>

definition main ::
  "(real \<Rightarrow> string) \<Rightarrow> (string \<Rightarrow> real option) \<Rightarrow> world \<Rightarrow> string list \<Rightarrow> frame list
     \<Rightarrow> unit outcome \<times> world \<times> string list \<times> frame list" where
  "main fmt pyfloat w lines frames =
     (case get_calibration_data fmt pyfloat w lines frames of
        (Raises e, w1, lines1, frames1) \<Rightarrow> (Raises e, w1, lines1, frames1)
      | (Waits, w1, lines1, frames1) \<Rightarrow> (Waits, w1, lines1, frames1)
      | (Returns (focal_length, known_hand_width), w1, lines1, frames1) \<Rightarrow>
          (case (focal_length, known_hand_width) of
             (Some fl, Some kw) \<Rightarrow>
               (case runtime_loop fl kw (print StartingEstimation w1) frames1 of
                  (Returns u, w2, frames2) \<Rightarrow> (Returns (), print ProgramFinished w2, lines1, frames2)
                | (Raises e, w2, frames2) \<Rightarrow> (Raises e, w2, lines1, frames2)
                | (Waits, w2, frames2) \<Rightarrow> (Waits, w2, lines1, frames2))
           | _ \<Rightarrow> (Returns (), print CouldNotObtain w1, lines1, frames1)))"

section \<open>Notions of the specification\<close>

text \<open>
  The pixel coordinates of the three selected landmarks (wrist, index-finger MCP, pinky
  MCP) in an image of the given width and height, and their exact horizontal span.
\<close>

definition pixel_xs :: "hand_landmarks \<Rightarrow> int \<Rightarrow> real set" where
  "pixel_xs hl image_width =
     {pt_x (landmark hl WRIST) * of_int image_width,
      pt_x (landmark hl INDEX_FINGER_MCP) * of_int image_width,
      pt_x (landmark hl PINKY_MCP) * of_int image_width}"

definition pixel_ys :: "hand_landmarks \<Rightarrow> int \<Rightarrow> real set" where
  "pixel_ys hl image_height =
     {pt_y (landmark hl WRIST) * of_int image_height,
      pt_y (landmark hl INDEX_FINGER_MCP) * of_int image_height,
      pt_y (landmark hl PINKY_MCP) * of_int image_height}"

definition horizontal_span :: "hand_landmarks \<Rightarrow> int \<Rightarrow> real" where
  "horizontal_span hl image_width = Max (pixel_xs hl image_width) - Min (pixel_xs hl image_width)"

text \<open>
  An integer is the truncation of a number when it is the integer next to it in the
  direction of zero: no larger in magnitude, less than one away, and not of opposite sign.
\<close>

definition truncation_of :: "real \<Rightarrow> int \<Rightarrow> bool" where
  "truncation_of v k \<longleftrightarrow> \<bar>of_int k\<bar> \<le> \<bar>v\<bar> \<and> \<bar>v\<bar> < \<bar>of_int k\<bar> + 1 \<and> 0 \<le> of_int k * v"

section \<open>Sample inputs\<close>

text \<open>
  A decimal fragment of the runtime's \<^verbatim>\<open>float\<close>: white space around an optional sign,
  digits and an optional fraction, as in \<^verbatim>\<open>"450.0"\<close>, \<^verbatim>\<open>"-8"\<close> or \<^verbatim>\<open>" .5 "\<close>. On these
  strings it gives the number Python gives; every other string is rejected here, while
  Python also reads exponents, underscores, \<^verbatim>\<open>inf\<close> and \<^verbatim>\<open>nan\<close>. It is the parser of the
  worked examples only: the theorems hold for every parser.
\<close>

definition digit_val :: "char \<Rightarrow> nat option" where
  "digit_val c =
     (let n = (of_char c :: nat) in if 48 \<le> n \<and> n \<le> 57 then Some (n - 48) else None)"

fun digits_val :: "nat \<Rightarrow> string \<Rightarrow> nat option" where
  "digits_val acc [] = Some acc"
| "digits_val acc (c # cs) =
     (case digit_val c of None \<Rightarrow> None | Some d \<Rightarrow> digits_val (10 * acc + d) cs)"

definition float_of_decimal :: "string \<Rightarrow> real option" where
  "float_of_decimal s =
     (let t = py_strip s;
          (sgn, u) = (case t of
                        [] \<Rightarrow> (1, t)
                      | c # r \<Rightarrow> if c = CHR ''-'' then (-1, r)
                                 else if c = CHR ''+'' then (1, r) else (1, t));
          ip = takeWhile (\<lambda>c. c \<noteq> CHR ''.'') u;
          fp = drop (length ip + 1) u
      in if ip = [] \<and> fp = [] then None
         else (case (digits_val 0 ip, digits_val 0 fp) of
                 (Some i, Some f) \<Rightarrow> Some (sgn * (of_nat i + of_nat f / 10 ^ length fp))
               | _ \<Rightarrow> None))"

text \<open>
  The text Python gives a float without fractional part and below \<open>10\<^sup>1\<^sup>6\<close> in magnitude,
  such as \<^verbatim>\<open>450.0\<close> and \<^verbatim>\<open>-8.0\<close>; of any other number it formats the integer part. It is
  the formatter of the worked examples only.
\<close>

fun decimal_digits :: "nat \<Rightarrow> string" where
  "decimal_digits n =
     (if n < 10 then [''0123456789'' ! n]
      else decimal_digits (n div 10) @ [''0123456789'' ! (n mod 10)])"

declare decimal_digits.simps [simp del]

definition repr_whole :: "real \<Rightarrow> string" where
  "repr_whole v = (if v < 0 then ''-'' else []) @ decimal_digits (nat \<lfloor>\<bar>v\<bar>\<rfloor>) @ ''.0''"

text \<open>
  A hand whose index knuckle is at \<open>x_left\<close>, whose pinky knuckle is at \<open>x_right\<close> and
  whose wrist is halfway between and lower in the image, seen in frames of 640 by 480.
\<close>

definition hand_spanning :: "real \<Rightarrow> real \<Rightarrow> hand_landmarks" where
  "hand_spanning x_left x_right =
     \<lparr>landmark = (\<lambda>l. \<lparr>pt_x = (if l = PINKY_MCP then x_right
                                 else if l = WRIST then (x_left + x_right) / 2 else x_left),
                         pt_y = (if l = WRIST then 3 / 4 else 1 / 2),
                         pt_z = 0\<rparr>)\<rparr>"

definition frame_with :: "hand_landmarks list \<Rightarrow> int \<Rightarrow> frame" where
  "frame_with hands pressed =
     \<lparr>is_opened = True, success = True, img_w = 640, img_h = 480,
      multi_hand_landmarks = hands, key = pressed\<rparr>"

definition fresh_world :: "string option \<Rightarrow> world" where
  "fresh_world content = \<lparr>calibration_file = content, stdout = [], shown = []\<rparr>"

section \<open>Key codes\<close>

lemma ord_c [simp]: "ord CHR ''c'' = 99"
  by (simp add: ord_def)

lemma ord_q [simp]: "ord CHR ''q'' = 113"
  by (simp add: ord_def)

section \<open>The distance estimate\<close>

text \<open>
  C1. \<^verbatim>\<open>estimate_distance\<close> returns 0 when the pixel width is 0 and otherwise the quotient
  of the product of known width and focal length by the pixel width; the division is never
  one by zero, so no error is raised.
\<close>

theorem estimate_distance_formula:
  "estimate_distance known_width_cm focal_length pixel_width =
     (if pixel_width = 0 then Inr 0 else Inr ((known_width_cm * focal_length) / pixel_width))
   \<and> (\<forall>e. estimate_distance known_width_cm focal_length pixel_width \<noteq> Inl e)"
  by (simp add: estimate_distance_def py_truediv_def)

theorem estimate_distance_formula_witness:
  "estimate_distance 8 450 0 = Inr 0 \<and> estimate_distance 8 450 100 = Inr 36"
  using estimate_distance_formula [of 8 450 0] estimate_distance_formula [of 8 450 100]
  by simp

section \<open>Geometry of the palm\<close>

lemma py_min_three: "py_min [a, b, c] = Inr (Min {a, b, c})"
  by (simp add: min_def) 

lemma py_max_three: "py_max [a, b, c] = Inr (Max {a, b, c})"
  by (simp add: max_def)

lemma py_int_mono: "a \<le> b \<Longrightarrow> py_int a \<le> py_int b"
proof -
  assume ab: "a \<le> b"
  show ?thesis
  proof (cases "0 \<le> a")
    case True
    with ab show ?thesis by (simp add: py_int_def floor_mono)
  next
    case False
    show ?thesis
    proof (cases "0 \<le> b")
      case True
      from False have "\<lceil>a\<rceil> \<le> 0" by simp
      moreover from True have "0 \<le> \<lfloor>b\<rfloor>" by simp
      ultimately have "\<lceil>a\<rceil> \<le> \<lfloor>b\<rfloor>" by (rule order_trans)
      with False True show ?thesis by (simp add: py_int_def)
    next
      case nb: False
      with False ab show ?thesis by (simp add: py_int_def ceiling_mono)
    qed
  qed
qed

lemma truncation_of_py_int: "truncation_of v (py_int v)"
proof (cases "0 \<le> v")
  case True
  then have "0 \<le> \<lfloor>v\<rfloor>" by simp
  then have k: "(0::real) \<le> of_int \<lfloor>v\<rfloor>" by simp
  have "of_int \<lfloor>v\<rfloor> \<le> v" "v < of_int \<lfloor>v\<rfloor> + 1" by linarith+
  with True k show ?thesis by (simp add: truncation_of_def py_int_def)
next
  case False
  then have "\<lceil>v\<rceil> \<le> 0" by simp
  then have k: "of_int \<lceil>v\<rceil> \<le> (0::real)" by simp
  have b: "v \<le> of_int \<lceil>v\<rceil>" "of_int \<lceil>v\<rceil> - 1 < v" by linarith+
  from False k have "0 \<le> of_int \<lceil>v\<rceil> * v" by (simp add: mult_nonpos_nonpos)
  with False k b show ?thesis by (simp add: truncation_of_def py_int_def)
qed

lemma truncation_of_unique: "truncation_of v k \<Longrightarrow> k = py_int v"
proof -
  assume t: "truncation_of v k"
  show ?thesis
  proof (cases "0 \<le> v")
    case True
    have "0 \<le> k"
    proof (rule ccontr)
      assume "\<not> 0 \<le> k"
      then have "k \<le> -1" by simp
      then have k1: "of_int k \<le> (-1::real)" by (metis of_int_le_iff of_int_minus of_int_1)
      from t have "\<bar>v\<bar> \<ge> \<bar>of_int k\<bar>" "0 \<le> of_int k * v" by (simp_all add: truncation_of_def)
      with k1 True have "v > 0" "of_int k * v < 0" by (auto simp: mult_neg_pos)
      with \<open>0 \<le> of_int k * v\<close> show False by simp
    qed
    then have "(0::real) \<le> of_int k" by simp
    with t True have "of_int k \<le> v" "v < of_int k + 1" by (simp_all add: truncation_of_def)
    then have "\<lfloor>v\<rfloor> = k" by (simp add: floor_unique)
    with True show ?thesis by (simp add: py_int_def)
  next
    case False
    have "k \<le> 0"
    proof (rule ccontr)
      assume "\<not> k \<le> 0"
      then have "(0::real) < of_int k" by simp
      with False have "of_int k * v < 0" by (simp add: mult_pos_neg)
      with t show False by (simp add: truncation_of_def)
    qed
    then have "of_int k \<le> (0::real)" by simp
    with t False have "v \<le> of_int k" "of_int k - 1 < v" by (simp_all add: truncation_of_def)
    then have "\<lceil>v\<rceil> = k" by (simp add: ceiling_unique)
    with False show ?thesis by (simp add: py_int_def)
  qed
qed

lemma get_hand_details_eq:
  "get_hand_details hl w h =
     Inr (py_int (Max (pixel_xs hl w)) - py_int (Min (pixel_xs hl w)),
          (py_int (Min (pixel_xs hl w)), py_int (Min (pixel_ys hl h)),
           py_int (Max (pixel_xs hl w)), py_int (Max (pixel_ys hl h))))"
proof -
  have "Min (pixel_xs hl w) \<le> Max (pixel_xs hl w)"
    unfolding pixel_xs_def by (simp add: min_le_iff_disj)
  then have "py_int (Min (pixel_xs hl w)) \<le> py_int (Max (pixel_xs hl w))"
    by (rule py_int_mono)
  then show ?thesis
    unfolding get_hand_details_def Let_def list.map py_min_three py_max_three
    by (simp add: pixel_xs_def pixel_ys_def)
qed

text \<open>
  C6. For every landmark set and every image width and height, \<^verbatim>\<open>get_hand_details\<close>
  returns a bounding box of four integers, each the truncation (towards zero, not the
  rounding) of the least or greatest pixel coordinate of the three landmarks, with
  \<open>x_min \<le> x_max\<close> and \<open>y_min \<le> y_max\<close>.
\<close>

theorem get_hand_details_bounding_box:
  "\<exists>pixel_width x_min y_min x_max y_max.
     get_hand_details hl image_width image_height = Inr (pixel_width, (x_min, y_min, x_max, y_max))
     \<and> truncation_of (Min (pixel_xs hl image_width)) x_min
     \<and> truncation_of (Min (pixel_ys hl image_height)) y_min
     \<and> truncation_of (Max (pixel_xs hl image_width)) x_max
     \<and> truncation_of (Max (pixel_ys hl image_height)) y_max
     \<and> x_min \<le> x_max \<and> y_min \<le> y_max"
proof -
  have "Min (pixel_xs hl image_width) \<le> Max (pixel_xs hl image_width)"
    unfolding pixel_xs_def by (simp add: min_le_iff_disj)
  then have x: "py_int (Min (pixel_xs hl image_width)) \<le> py_int (Max (pixel_xs hl image_width))"
    by (rule py_int_mono)
  have "Min (pixel_ys hl image_height) \<le> Max (pixel_ys hl image_height)"
    unfolding pixel_ys_def by (simp add: min_le_iff_disj)
  then have y: "py_int (Min (pixel_ys hl image_height)) \<le> py_int (Max (pixel_ys hl image_height))"
    by (rule py_int_mono)
  from x y show ?thesis
    by (simp add: get_hand_details_eq truncation_of_py_int)
qed

theorem get_hand_details_bounding_box_witness:
  "get_hand_details (hand_spanning (1/4) (641/1024)) 640 480 = Inr (240, (160, 240, 400, 360))
   \<and> truncation_of (Max (pixel_xs (hand_spanning (1/4) (641/1024)) 640)) 400
   \<and> Max (pixel_xs (hand_spanning (1/4) (641/1024)) 640) = 400 + 5/8"
  using get_hand_details_bounding_box [of "hand_spanning (1/4) (641/1024)" 640 480]
  by (simp add: get_hand_details_eq pixel_xs_def pixel_ys_def hand_spanning_def py_int_def truncation_of_def)

text \<open>
  C5, as stated, fails: the returned pixel width is computed from the truncated corner
  coordinates. For knuckles at pixel columns 160 and 400.625 it is 240, while the exact
  span is 240.625.
\<close>

theorem pixel_width_not_exact_span:
  "get_hand_details (hand_spanning (1/4) (641/1024)) 640 480 = Inr (240, (160, 240, 400, 360))
   \<and> horizontal_span (hand_spanning (1/4) (641/1024)) 640 = 240 + 5/8
   \<and> of_int 240 \<noteq> horizontal_span (hand_spanning (1/4) (641/1024)) 640"
  by (simp add: get_hand_details_eq horizontal_span_def pixel_xs_def pixel_ys_def hand_spanning_def py_int_def)

text \<open>
  C5, amended. The pixel width returned by \<^verbatim>\<open>get_hand_details\<close> is non-negative and
  equals \<open>x_max - x_min\<close> of the returned bounding box, the difference of the truncated
  greatest and least pixel columns of the three landmarks; it is more than the exact span
  minus 2 and less than the exact span plus 1.
\<close>

theorem get_hand_details_pixel_width:
  "\<exists>pixel_width x_min y_min x_max y_max.
     get_hand_details hl image_width image_height = Inr (pixel_width, (x_min, y_min, x_max, y_max))
     \<and> 0 \<le> pixel_width
     \<and> pixel_width = x_max - x_min
     \<and> truncation_of (Max (pixel_xs hl image_width)) x_max
     \<and> truncation_of (Min (pixel_xs hl image_width)) x_min
     \<and> horizontal_span hl image_width - 2 < of_int pixel_width
     \<and> of_int pixel_width < horizontal_span hl image_width + 1"
proof -
  let ?lo = "Min (pixel_xs hl image_width)" and ?hi = "Max (pixel_xs hl image_width)"
  have le: "?lo \<le> ?hi"
    unfolding pixel_xs_def by (simp add: min_le_iff_disj)
  then have x: "py_int ?lo \<le> py_int ?hi"
    by (rule py_int_mono)
  have lo: "?lo - 1 < of_int (py_int ?lo)" "of_int (py_int ?lo) < ?lo + 1"
    unfolding py_int_def by (simp_all; linarith)+
  have hi: "?hi - 1 < of_int (py_int ?hi)" "of_int (py_int ?hi) < ?hi + 1"
    unfolding py_int_def by (simp_all; linarith)+
  have hi': "of_int (py_int ?hi) \<le> ?hi \<or> (?hi < 0 \<and> ?lo < 0 \<and> ?lo \<le> of_int (py_int ?lo))"
    using le unfolding py_int_def by (simp; linarith)
  have lo': "?lo \<le> of_int (py_int ?lo) \<or> (0 \<le> ?lo \<and> 0 \<le> ?hi \<and> of_int (py_int ?hi) \<le> ?hi)"
    using le unfolding py_int_def by (simp; linarith)
  have "horizontal_span hl image_width - 2 < of_int (py_int ?hi) - of_int (py_int ?lo)"
    unfolding horizontal_span_def using lo hi by linarith
  moreover have "of_int (py_int ?hi) - of_int (py_int ?lo) < horizontal_span hl image_width + 1"
    unfolding horizontal_span_def using lo hi lo' hi' by linarith
  ultimately show ?thesis using x
    by (simp add: get_hand_details_eq truncation_of_py_int)
qed


theorem get_hand_details_pixel_width_witness:
  "get_hand_details (hand_spanning (1/4) (7/16)) 640 480 = Inr (120, (160, 240, 280, 360))
   \<and> horizontal_span (hand_spanning (1/4) (7/16)) 640 = 120"
  using get_hand_details_pixel_width [of "hand_spanning (1/4) (7/16)" 640 480]
  by (simp add: get_hand_details_eq horizontal_span_def pixel_xs_def pixel_ys_def
      hand_spanning_def py_int_def)

section \<open>The capture loop of the calibration\<close>

lemma stdout_print [simp]: "stdout (print m w) = stdout w @ [m]"
  by (simp add: print_def)

lemma stdout_imshow [simp]: "stdout (imshow ovs w) = stdout w"
  by (simp add: imshow_def)

lemma stdout_write_file [simp]: "stdout (write_file c w) = stdout w"
  by (simp add: write_file_def)

lemma file_print [simp]: "calibration_file (print m w) = calibration_file w"
  by (simp add: print_def)

lemma file_imshow [simp]: "calibration_file (imshow ovs w) = calibration_file w"
  by (simp add: imshow_def)

lemma file_write_file [simp]: "calibration_file (write_file c w) = Some c"
  by (simp add: write_file_def)

lemma shown_print [simp]: "shown (print m w) = shown w"
  by (simp add: print_def)

lemma shown_imshow [simp]: "shown (imshow ovs w) = shown w @ [ovs]"
  by (simp add: imshow_def)

lemma shown_write_file [simp]: "shown (write_file c w) = shown w"
  by (simp add: write_file_def)

lemma pixel_width_nonneg:
  assumes "get_hand_details hl w h = Inr (pixel_width, bbox)"
  shows "0 \<le> pixel_width"
proof -
  have "Min (pixel_xs hl w) \<le> Max (pixel_xs hl w)"
    unfolding pixel_xs_def by (simp add: min_le_iff_disj)
  then have "py_int (Min (pixel_xs hl w)) \<le> py_int (Max (pixel_xs hl w))"
    by (rule py_int_mono)
  with assms show ?thesis by (simp add: get_hand_details_eq)
qed

lemma get_hand_details_total: "\<exists>pw a b c d. get_hand_details hl w h = Inr (pw, (a, b, c, d))"
  by (simp add: get_hand_details_eq)

lemma calibration_overlays_no_hand:
  "multi_hand_landmarks f = [] \<Longrightarrow> calibration_overlays f = Inr [PlaceHandText]"
  by (simp add: calibration_overlays_def)

lemma calibration_overlays_total: "\<exists>ovs. calibration_overlays f = Inr ovs"
  by (cases "multi_hand_landmarks f") (simp_all add: calibration_overlays_def get_hand_details_eq)

text \<open>The capture pass, case by case.\<close>

lemma capture_pass_no_image:
  "\<not> success f \<Longrightarrow> capture_pass fmt known f w = Continue w"
  by (simp add: capture_pass_def)

lemma capture_pass_no_capture:
  assumes "success f" "\<not> ((key f AND 0xFF) = 99 \<and> multi_hand_landmarks f \<noteq> [])"
  shows "\<exists>ovs. capture_pass fmt known f w = Continue (imshow ovs w)"
proof -
  obtain ovs where "calibration_overlays f = Inr ovs"
    using calibration_overlays_total by blast
  with assms show ?thesis
    by (auto simp: capture_pass_def Let_def)
qed

lemma capture_pass_zero_width:
  assumes "success f" "(key f AND 0xFF) = 99" "multi_hand_landmarks f = hl # others"
    and "get_hand_details hl (img_w f) (img_h f) = Inr (pixel_width, bbox)" "\<not> 0 < pixel_width"
  shows "\<exists>ovs. capture_pass fmt known f w = Continue (print CouldNotMeasure (imshow ovs w))"
proof -
  obtain ovs where "calibration_overlays f = Inr ovs"
    using calibration_overlays_total by blast
  with assms show ?thesis
    by (auto simp: capture_pass_def Let_def)
qed

lemma capture_pass_capture:
  assumes "success f" "(key f AND 0xFF) = 99" "multi_hand_landmarks f = hl # others"
    and "get_hand_details hl (img_w f) (img_h f) = Inr (pixel_width, bbox)" "0 < pixel_width"
    and "known \<noteq> 0"
  shows "\<exists>ovs. capture_pass fmt known f w =
           Break (of_int pixel_width * 30 / known)
             (print SavedToFile
               (print (CalibrationSuccessful (of_int pixel_width * 30 / known))
                 (write_file (calibration_text fmt (of_int pixel_width * 30 / known) known)
                    (imshow ovs w))))"
proof -
  obtain ovs where "calibration_overlays f = Inr ovs"
    using calibration_overlays_total by blast
  with assms show ?thesis
    by (auto simp: capture_pass_def Let_def py_truediv_def KNOWN_DISTANCE_FOR_CALIBRATION_def)
qed

lemma capture_pass_capture_div0:
  assumes "success f" "(key f AND 0xFF) = 99" "multi_hand_landmarks f = hl # others"
    and "get_hand_details hl (img_w f) (img_h f) = Inr (pixel_width, bbox)" "0 < pixel_width"
    and "known = 0"
  shows "\<exists>ovs. capture_pass fmt known f w = Abort ZeroDivisionError (imshow ovs w)"
proof -
  obtain ovs where "calibration_overlays f = Inr ovs"
    using calibration_overlays_total by blast
  with assms show ?thesis
    by (auto simp: capture_pass_def Let_def py_truediv_def KNOWN_DISTANCE_FOR_CALIBRATION_def)
qed

text \<open>The five cases cover every frame.\<close>

lemma capture_pass_cases:
  obtains (no_image) "\<not> success f"
  | (no_capture) "success f" "\<not> ((key f AND 0xFF) = 99 \<and> multi_hand_landmarks f \<noteq> [])"
  | (zero_width) hl others bbox pixel_width where "success f" "(key f AND 0xFF) = 99"
      "multi_hand_landmarks f = hl # others"
      "get_hand_details hl (img_w f) (img_h f) = Inr (pixel_width, bbox)" "\<not> 0 < pixel_width"
  | (capture) hl others bbox pixel_width where "success f" "(key f AND 0xFF) = 99"
      "multi_hand_landmarks f = hl # others"
      "get_hand_details hl (img_w f) (img_h f) = Inr (pixel_width, bbox)" "0 < pixel_width"
proof (cases "success f")
  case False
  then show ?thesis by (rule no_image)
next
  case s: True
  show ?thesis
  proof (cases "(key f AND 0xFF) = 99 \<and> multi_hand_landmarks f \<noteq> []")
    case False
    with s show ?thesis by (rule no_capture)
  next
    case True
    then obtain hl others where h: "multi_hand_landmarks f = hl # others"
      by (cases "multi_hand_landmarks f") auto
    obtain pw a b c d where g: "get_hand_details hl (img_w f) (img_h f) = Inr (pw, (a, b, c, d))"
      using get_hand_details_total by blast
    show ?thesis
    proof (cases "0 < pw")
      case True
      with s \<open>(key f AND 0xFF) = 99 \<and> multi_hand_landmarks f \<noteq> []\<close> h g show ?thesis
        by (intro capture) auto
    next
      case False
      with s \<open>(key f AND 0xFF) = 99 \<and> multi_hand_landmarks f \<noteq> []\<close> h g show ?thesis
        by (intro zero_width) auto
    qed
  qed
qed

text \<open>
  C2. In the calibrate path, a capture (key \<^verbatim>\<open>c\<close>, a hand in the frame) whose measured
  pixel width is positive, with a positive hand width entered by the user, ends the loop
  with the focal length \<open>pixel_width * 30.0 / known_hand_width\<close>; the file then holds this
  focal length and the hand width, one per line, and \<^verbatim>\<open>calibrate\<close> returns the same pair.
  A pixel width of 120 and a hand width of 8.0 give the focal length 450.0.
\<close>

theorem calibrate_focal_length:
  assumes "success f" and "(key f AND 0xFF) = 99"
    and "multi_hand_landmarks f = hl # others"
    and "get_hand_details hl (img_w f) (img_h f) = Inr (pixel_width, bbox)"
    and "0 < pixel_width" and "0 < known_hand_width"
    and "pyfloat line = Some known_hand_width"
  shows "capture_pass fmt known_hand_width f w =
           Break (of_int pixel_width * 30.0 / known_hand_width)
                 (world_after (capture_pass fmt known_hand_width f w))
         \<and> calibration_file (world_after (capture_pass fmt known_hand_width f w)) =
             Some (fmt (of_int pixel_width * 30.0 / known_hand_width) @ [CHR 0x0A]
                   @ fmt known_hand_width @ [CHR 0x0A])
         \<and> (pixel_width = 120 \<and> known_hand_width = 8.0 \<longrightarrow>
              capture_pass fmt known_hand_width f w
                = Break 450.0 (world_after (capture_pass fmt known_hand_width f w)))
         \<and> fst (calibrate fmt pyfloat w0 (line # lines) (f # frames)) =
             Returns (of_int pixel_width * 30.0 / known_hand_width, known_hand_width)
         \<and> calibration_file (fst (snd (calibrate fmt pyfloat w0 (line # lines) (f # frames)))) =
             Some (calibration_text fmt (of_int pixel_width * 30.0 / known_hand_width) known_hand_width)"
proof -
  let ?fl = "of_int pixel_width * 30 / known_hand_width"
  from assms have k: "known_hand_width \<noteq> 0" by simp
  have pass: "\<And>w. \<exists>ovs. capture_pass fmt known_hand_width f w =
           Break ?fl
             (print SavedToFile
               (print (CalibrationSuccessful ?fl)
                 (write_file (calibration_text fmt ?fl known_hand_width) (imshow ovs w))))"
    using capture_pass_capture [OF assms(1-5) k] by simp
  obtain ovs where 1: "capture_pass fmt known_hand_width f w =
           Break ?fl
             (print SavedToFile
               (print (CalibrationSuccessful ?fl)
                 (write_file (calibration_text fmt ?fl known_hand_width) (imshow ovs w))))"
    using pass by blast
  have a: "capture_pass fmt known_hand_width f w =
           Break ?fl (world_after (capture_pass fmt known_hand_width f w))"
    by (simp add: 1)
  have b: "calibration_file (world_after (capture_pass fmt known_hand_width f w)) =
             Some (fmt ?fl @ [CHR 0x0A] @ fmt known_hand_width @ [CHR 0x0A])"
    by (simp add: 1 calibration_text_def)
  have c: "pixel_width = 120 \<and> known_hand_width = 8 \<longrightarrow>
              capture_pass fmt known_hand_width f w
                = Break 450 (world_after (capture_pass fmt known_hand_width f w))"
    using 1 by auto
  let ?w1 = "print PressCToCapture (print EnsurePalmFacing (print PlaceHandAtDistance
               (print PromptHandWidth (print StartingCalibration w0))))"
  obtain ovs' where 2: "capture_pass fmt known_hand_width f ?w1 =
           Break ?fl
             (print SavedToFile
               (print (CalibrationSuccessful ?fl)
                 (write_file (calibration_text fmt ?fl known_hand_width) (imshow ovs' ?w1))))"
    using pass by blast
  have ask: "ask_hand_width pyfloat (print StartingCalibration w0) (line # lines) =
          (Returns known_hand_width, print PromptHandWidth (print StartingCalibration w0), lines)"
    using assms(6,7) by (simp add: py_float_def)
  have d: "fst (calibrate fmt pyfloat w0 (line # lines) (f # frames)) = Returns (?fl, known_hand_width)"
    by (simp add: calibrate_def ask 2 del: ask_hand_width.simps)
  have e: "calibration_file (fst (snd (calibrate fmt pyfloat w0 (line # lines) (f # frames)))) =
             Some (calibration_text fmt ?fl known_hand_width)"
    by (simp add: calibrate_def ask 2 del: ask_hand_width.simps)
  from a b c d e show ?thesis by simp
qed

theorem calibrate_focal_length_witness:
  "calibrate repr_whole float_of_decimal (fresh_world None) [''8.0'']
      [frame_with [hand_spanning (1/4) (7/16)] 99]
    = (Returns (450, 8),
       \<lparr>calibration_file = Some (''450.0\<newline>8.0\<newline>''),
        stdout = [StartingCalibration, PromptHandWidth, PlaceHandAtDistance, EnsurePalmFacing,
                  PressCToCapture, CalibrationSuccessful 450, SavedToFile],
        shown = [[Rectangle (160, 240) (280, 360), PixelWidthText 120 (160, 230), PlaceHandText]]\<rparr>,
       [], [])"
proof -
  have g: "get_hand_details (hand_spanning (1/4) (7/16)) 640 480 = Inr (120, (160, 240, 280, 360))"
    by (simp add: get_hand_details_eq pixel_xs_def pixel_ys_def hand_spanning_def py_int_def)
  have p: "float_of_decimal ''8.0'' = Some 8"
    by (simp add: float_of_decimal_def py_strip_def py_isspace_def digit_val_def)
  have r1: "repr_whole 450 = ''450.0''"
    by (simp add: repr_whole_def decimal_digits.simps)
  have r2: "repr_whole 8 = ''8.0''"
    by (simp add: repr_whole_def decimal_digits.simps)
  note t = calibrate_focal_length [of "frame_with [hand_spanning (1/4) (7/16)] 99"
      "hand_spanning (1/4) (7/16)" "[]" 120 "(160, 240, 280, 360)" 8 float_of_decimal "''8.0''"
      repr_whole "fresh_world None" "fresh_world None" "[]" "[]"]
  have "success (frame_with [hand_spanning (1/4) (7/16)] 99)" by (simp add: frame_with_def)
  show ?thesis
    using t g p r1 r2
    by (simp add: frame_with_def fresh_world_def calibrate_def py_float_def capture_pass_def
        calibration_overlays_def py_truediv_def KNOWN_DISTANCE_FOR_CALIBRATION_def
        calibration_text_def print_def imshow_def write_file_def)
qed

text \<open>
  C10. Pressing the capture key while no hand is detected has no effect: the pass
  continues the loop without computing a focal length, the file and the printed
  messages are as before. The message \<^verbatim>\<open>Could not measure hand width\<close> is printed
  exactly when a frame was read, the capture key was pressed, a hand was detected and its
  measured pixel width is 0.
\<close>

theorem capture_without_hand_is_ignored:
  "(success f \<and> (key f AND 0xFF) = 99 \<and> multi_hand_landmarks f = [] \<longrightarrow>
      capture_pass fmt known_hand_width f w = Continue (world_after (capture_pass fmt known_hand_width f w))
      \<and> calibration_file (world_after (capture_pass fmt known_hand_width f w)) = calibration_file w
      \<and> stdout (world_after (capture_pass fmt known_hand_width f w)) = stdout w
      \<and> capture_loop fmt known_hand_width w (f # frames)
          = capture_loop fmt known_hand_width (imshow [PlaceHandText] w) frames)
   \<and> (stdout (world_after (capture_pass fmt known_hand_width f w)) = stdout w @ [CouldNotMeasure]
        \<longleftrightarrow> success f \<and> (key f AND 0xFF) = 99
            \<and> (\<exists>hl others bbox. multi_hand_landmarks f = hl # others
                  \<and> get_hand_details hl (img_w f) (img_h f) = Inr (0, bbox)))
   \<and> (CouldNotMeasure \<in> set (stdout (world_after (capture_pass fmt known_hand_width f w)))
        \<and> CouldNotMeasure \<notin> set (stdout w)
        \<longrightarrow> success f \<and> (key f AND 0xFF) = 99
            \<and> (\<exists>hl others bbox. multi_hand_landmarks f = hl # others
                  \<and> get_hand_details hl (img_w f) (img_h f) = Inr (0, bbox)))"
proof -
  let ?p = "capture_pass fmt known_hand_width f w"
  let ?zero = "success f \<and> (key f AND 0xFF) = 99
            \<and> (\<exists>hl others bbox. multi_hand_landmarks f = hl # others
                  \<and> get_hand_details hl (img_w f) (img_h f) = Inr (0, bbox))"
  have first: "?p = Continue (world_after ?p) \<and> calibration_file (world_after ?p) = calibration_file w
      \<and> stdout (world_after ?p) = stdout w
      \<and> capture_loop fmt known_hand_width w (f # frames)
          = capture_loop fmt known_hand_width (imshow [PlaceHandText] w) frames"
    if "success f" "(key f AND 0xFF) = 99" "multi_hand_landmarks f = []"
    using that by (simp add: capture_pass_def calibration_overlays_def)
  have second: "(stdout (world_after ?p) = stdout w @ [CouldNotMeasure] \<longleftrightarrow> ?zero)
      \<and> (CouldNotMeasure \<in> set (stdout (world_after ?p)) \<and> CouldNotMeasure \<notin> set (stdout w) \<longrightarrow> ?zero)"
  proof (cases f rule: capture_pass_cases)
    case no_image
    then show ?thesis by (simp add: capture_pass_no_image)
  next
    case no_capture
    then obtain ovs where "?p = Continue (imshow ovs w)"
      using capture_pass_no_capture by blast
    with no_capture show ?thesis by auto
  next
    case (zero_width hl others bbox pixel_width)
    then obtain ovs where p: "?p = Continue (print CouldNotMeasure (imshow ovs w))"
      using capture_pass_zero_width by blast
    from zero_width(4) have "0 \<le> pixel_width"
      by (rule pixel_width_nonneg)
    with zero_width have "pixel_width = 0" by simp
    moreover obtain a b c d where "bbox = (a, b, c, d)" by (cases bbox) auto
    ultimately show ?thesis using zero_width p by auto
  next
    case (capture hl others bbox pixel_width)
    show ?thesis
    proof (cases "known_hand_width = 0")
      case True
      with capture obtain ovs where "?p = Abort ZeroDivisionError (imshow ovs w)"
        using capture_pass_capture_div0 by blast
      with capture show ?thesis by auto
    next
      case False
      with capture obtain ovs where "?p = Break (of_int pixel_width * 30 / known_hand_width)
             (print SavedToFile
               (print (CalibrationSuccessful (of_int pixel_width * 30 / known_hand_width))
                 (write_file (calibration_text fmt (of_int pixel_width * 30 / known_hand_width) known_hand_width)
                    (imshow ovs w))))"
        using capture_pass_capture by blast
      with capture show ?thesis by auto
    qed
  qed
  from first second show ?thesis by blast
qed

theorem capture_without_hand_is_ignored_witness:
  "capture_pass repr_whole 8 (frame_with [] 99) (fresh_world None)
     = Continue \<lparr>calibration_file = None, stdout = [], shown = [[PlaceHandText]]\<rparr>
   \<and> capture_pass repr_whole 8 (frame_with [hand_spanning (1/4) (1/4)] 99) (fresh_world None)
     = Continue \<lparr>calibration_file = None, stdout = [CouldNotMeasure],
          shown = [[Rectangle (160, 240) (160, 360), PixelWidthText 0 (160, 230), PlaceHandText]]\<rparr>"
proof -
  have g: "get_hand_details (hand_spanning (1/4) (1/4)) 640 480 = Inr (0, (160, 240, 160, 360))"
    by (simp add: get_hand_details_eq pixel_xs_def pixel_ys_def hand_spanning_def py_int_def)
  show ?thesis
    using capture_without_hand_is_ignored [of "frame_with [] 99" repr_whole 8 "fresh_world None" "[]"]
      capture_without_hand_is_ignored [of "frame_with [hand_spanning (1/4) (1/4)] 99" repr_whole 8
        "fresh_world None" "[]"] g
    by (simp add: frame_with_def fresh_world_def capture_pass_def calibration_overlays_def
        print_def imshow_def)
qed

section \<open>The overlays of the runtime loop\<close>

lemma runtime_overlays_hand:
  assumes "multi_hand_landmarks f = hl # others"
    and "get_hand_details hl (img_w f) (img_h f) = Inr (pixel_width, (x_min, y_min, x_max, y_max))"
    and "0 < pixel_width"
  shows "runtime_overlays focal_length known_hand_width f =
           Inr ([DrawLandmarks hl, Rectangle (x_min, y_min) (x_max, y_max),
                 DistanceText (known_hand_width * focal_length / of_int pixel_width)]
                @ (if known_hand_width * focal_length / of_int pixel_width < 60
                   then [TooCloseText (img_w f div 2 - 200, img_h f div 2)] else []))"
  using assms by (simp add: runtime_overlays_def estimate_distance_def py_truediv_def)

text \<open>
  C7. For every frame that was read, shows a hand and has a positive pixel width, the
  frame is shown with the estimated distance, and the proximity warning is overlaid
  exactly when that distance is strictly less than 60. With focal length 450.0 and known
  width 8.0, a pixel width of 100 gives 36.0 and the warning, a pixel width of 60 gives
  60.0 and no warning.
\<close>

theorem proximity_warning_below_60:
  assumes "success f" and "multi_hand_landmarks f = hl # others"
    and "get_hand_details hl (img_w f) (img_h f) = Inr (pixel_width, bbox)"
    and "0 < pixel_width"
  shows "\<exists>ovs. runtime_overlays focal_length known_hand_width f = Inr ovs
           \<and> shown (world_after (runtime_pass focal_length known_hand_width f w)) = shown w @ [ovs]
           \<and> DistanceText (known_hand_width * focal_length / of_int pixel_width) \<in> set ovs
           \<and> ((\<exists>pos. TooCloseText pos \<in> set ovs)
                \<longleftrightarrow> known_hand_width * focal_length / of_int pixel_width < 60)
           \<and> (focal_length = 450.0 \<and> known_hand_width = 8.0 \<and> pixel_width = 100 \<longrightarrow>
                 DistanceText 36.0 \<in> set ovs \<and> (\<exists>pos. TooCloseText pos \<in> set ovs))
           \<and> (focal_length = 450.0 \<and> known_hand_width = 8.0 \<and> pixel_width = 60 \<longrightarrow>
                 DistanceText 60.0 \<in> set ovs \<and> \<not> (\<exists>pos. TooCloseText pos \<in> set ovs))"
proof -
  obtain x_min y_min x_max y_max where b: "bbox = (x_min, y_min, x_max, y_max)"
    by (cases bbox) auto
  let ?d = "known_hand_width * focal_length / of_int pixel_width"
  let ?ovs = "[DrawLandmarks hl, Rectangle (x_min, y_min) (x_max, y_max), DistanceText ?d]
                @ (if ?d < 60 then [TooCloseText (img_w f div 2 - 200, img_h f div 2)] else [])"
  have r: "runtime_overlays focal_length known_hand_width f = Inr ?ovs"
    using assms(2-4) unfolding b by (rule runtime_overlays_hand)
  have s: "shown (world_after (runtime_pass focal_length known_hand_width f w)) = shown w @ [?ovs]"
    using assms(1) by (simp add: runtime_pass_def r Let_def)
  have d: "DistanceText ?d \<in> set ?ovs" by simp
  have t: "(\<exists>pos. TooCloseText pos \<in> set ?ovs) \<longleftrightarrow> ?d < 60" by auto
  have s1: "focal_length = 450 \<and> known_hand_width = 8 \<and> pixel_width = 100 \<longrightarrow>
                 DistanceText 36 \<in> set ?ovs \<and> (\<exists>pos. TooCloseText pos \<in> set ?ovs)"
    by auto
  have s2: "focal_length = 450 \<and> known_hand_width = 8 \<and> pixel_width = 60 \<longrightarrow>
                 DistanceText 60 \<in> set ?ovs \<and> \<not> (\<exists>pos. TooCloseText pos \<in> set ?ovs)"
    by auto
  from r s d t s1 s2 show ?thesis by (intro exI [of _ ?ovs]) simp
qed

theorem proximity_warning_below_60_witness:
  "runtime_overlays 450 8 (frame_with [hand_spanning (1/4) (13/32)] 0)
     = Inr [DrawLandmarks (hand_spanning (1/4) (13/32)), Rectangle (160, 240) (260, 360),
            DistanceText 36, TooCloseText (120, 240)]
   \<and> runtime_overlays 450 8 (frame_with [hand_spanning (1/4) (11/32)] 0)
     = Inr [DrawLandmarks (hand_spanning (1/4) (11/32)), Rectangle (160, 240) (220, 360),
            DistanceText 60]"
proof -
  have g1: "get_hand_details (hand_spanning (1/4) (13/32)) 640 480 = Inr (100, (160, 240, 260, 360))"
    by (simp add: get_hand_details_eq pixel_xs_def pixel_ys_def hand_spanning_def py_int_def)
  have g2: "get_hand_details (hand_spanning (1/4) (11/32)) 640 480 = Inr (60, (160, 240, 220, 360))"
    by (simp add: get_hand_details_eq pixel_xs_def pixel_ys_def hand_spanning_def py_int_def)
  show ?thesis
    using proximity_warning_below_60 [of "frame_with [hand_spanning (1/4) (13/32)] 0"
        "hand_spanning (1/4) (13/32)" "[]" 100 "(160, 240, 260, 360)" 450 8 "fresh_world None"]
      proximity_warning_below_60 [of "frame_with [hand_spanning (1/4) (11/32)] 0"
        "hand_spanning (1/4) (11/32)" "[]" 60 "(160, 240, 220, 360)" 450 8 "fresh_world None"]
      g1 g2
    by (simp add: frame_with_def runtime_overlays_def estimate_distance_def py_truediv_def)
qed

section \<open>The text of the calibration file\<close>

lemma py_strip_newline: "py_strip (s @ [CHR 0x0A]) = py_strip s"
proof -
  have sp: "py_isspace (CHR 0x0A)" by (simp add: py_isspace_def)
  show ?thesis
  proof (cases "\<forall>c \<in> set s. py_isspace c")
    case True
    then have d: "dropWhile py_isspace s = []"
      by (simp add: dropWhile_eq_Nil_conv)
    have "dropWhile py_isspace (s @ [CHR 0x0A]) = dropWhile py_isspace [CHR 0x0A]"
      unfolding dropWhile_append using True by (rule if_P)
    also have "\<dots> = []" using sp by simp
    finally have e: "dropWhile py_isspace (s @ [CHR 0x0A]) = []" .
    show ?thesis unfolding py_strip_def d e ..
  next
    case False
    then have "dropWhile py_isspace (s @ [CHR 0x0A]) = dropWhile py_isspace s @ [CHR 0x0A]"
      by (auto simp: dropWhile_append)
    then show ?thesis using sp by (simp add: py_strip_def)
  qed
qed

lemma readline_line:
  "CHR 0x0A \<notin> set a \<Longrightarrow> readline (a @ [CHR 0x0A] @ rest) = (a @ [CHR 0x0A], rest)"
  by (simp add: readline_def takeWhile_append dropWhile_append takeWhile_eq_all_conv[THEN iffD2]
      dropWhile_eq_Nil_conv[THEN iffD2])

lemma read_calibration_file_cong:
  "calibration_file w = calibration_file w' \<Longrightarrow>
     read_calibration_file pyfloat w = read_calibration_file pyfloat w'"
  by (simp add: read_calibration_file_def)

lemma read_calibration_file_print [simp]:
  "read_calibration_file pyfloat (print m w) = read_calibration_file pyfloat w"
  by (rule read_calibration_file_cong) simp

lemma read_calibration_text:
  assumes "CHR 0x0A \<notin> set (fmt focal_length)" and "CHR 0x0A \<notin> set (fmt known_width)"
    and "pyfloat (py_strip (fmt focal_length)) = Some focal_length"
    and "pyfloat (py_strip (fmt known_width)) = Some known_width"
    and "calibration_file w = Some (calibration_text fmt focal_length known_width)"
  shows "read_calibration_file pyfloat w = Inr (focal_length, known_width)"
proof -
  have 1: "readline (calibration_text fmt focal_length known_width)
            = (fmt focal_length @ [CHR 0x0A], fmt known_width @ [CHR 0x0A])"
    unfolding calibration_text_def using assms(1) by (rule readline_line)
  have 2: "readline (fmt known_width @ [CHR 0x0A]) = (fmt known_width @ [CHR 0x0A], [])"
    using readline_line [OF assms(2), of "[]"] by simp
  show ?thesis
    by (simp add: read_calibration_file_def assms(3,4,5) 1 2 py_strip_newline py_float_def)
qed

section \<open>What the calibration loops establish\<close>

lemma ask_hand_width_props:
  "ask_hand_width pyfloat w lines = (r, w', lines') \<Longrightarrow>
     (\<forall>e. r \<noteq> Raises e) \<and> (\<forall>k. r = Returns k \<longrightarrow> 0 < k)
     \<and> calibration_file w' = calibration_file w
     \<and> (CouldNotObtain \<in> set (stdout w') \<longrightarrow> CouldNotObtain \<in> set (stdout w))"
proof (induction lines arbitrary: w)
  case Nil
  then show ?case by auto
next
  case (Cons line lines)
  show ?case
  proof (cases "pyfloat line")
    case None
    with Cons.prems have
      "ask_hand_width pyfloat (print InvalidNumber (print PromptHandWidth w)) lines = (r, w', lines')"
      by (simp add: py_float_def)
    from Cons.IH [OF this] show ?thesis by simp
  next
    case (Some v)
    show ?thesis
    proof (cases "0 < v")
      case True
      with Some Cons.prems show ?thesis by (auto simp: py_float_def)
    next
      case False
      with Some Cons.prems have
        "ask_hand_width pyfloat (print EnterPositiveNumber (print PromptHandWidth w)) lines = (r, w', lines')"
        by (simp add: py_float_def)
      from Cons.IH [OF this] show ?thesis by simp
    qed
  qed
qed

lemma capture_pass_props:
  assumes "0 < known"
  shows "(\<forall>e w'. capture_pass fmt known f w \<noteq> Abort e w')
     \<and> (\<forall>fl w'. capture_pass fmt known f w = Break fl w' \<longrightarrow>
            0 < fl \<and> calibration_file w' = Some (calibration_text fmt fl known))
     \<and> (\<forall>w'. capture_pass fmt known f w = Continue w' \<longrightarrow> calibration_file w' = calibration_file w)
     \<and> (CouldNotObtain \<in> set (stdout (world_after (capture_pass fmt known f w)))
           \<longrightarrow> CouldNotObtain \<in> set (stdout w))"
proof (cases f rule: capture_pass_cases)
  case no_image
  then show ?thesis by (simp add: capture_pass_no_image)
next
  case no_capture
  then obtain ovs where "capture_pass fmt known f w = Continue (imshow ovs w)"
    using capture_pass_no_capture by blast
  then show ?thesis by auto
next
  case (zero_width hl others bbox pixel_width)
  then obtain ovs where "capture_pass fmt known f w = Continue (print CouldNotMeasure (imshow ovs w))"
    using capture_pass_zero_width by blast
  then show ?thesis by auto
next
  case (capture hl others bbox pixel_width)
  from assms have "known \<noteq> 0" by simp
  with capture obtain ovs where "capture_pass fmt known f w =
       Break (of_int pixel_width * 30 / known)
         (print SavedToFile
           (print (CalibrationSuccessful (of_int pixel_width * 30 / known))
             (write_file (calibration_text fmt (of_int pixel_width * 30 / known) known)
                (imshow ovs w))))"
    using capture_pass_capture by blast
  moreover from capture(5) assms have "0 < of_int pixel_width * 30 / known" by simp
  ultimately show ?thesis by auto
qed

lemma capture_pass_no_abort: "0 < known \<Longrightarrow> capture_pass fmt known f w \<noteq> Abort e w'"
  using capture_pass_props [of known fmt f w] by blast

lemma capture_pass_break:
  "0 < known \<Longrightarrow> capture_pass fmt known f w = Break fl w' \<Longrightarrow>
     0 < fl \<and> calibration_file w' = Some (calibration_text fmt fl known)"
  using capture_pass_props [of known fmt f w] by blast

lemma capture_pass_continue_file:
  "0 < known \<Longrightarrow> capture_pass fmt known f w = Continue w' \<Longrightarrow>
     calibration_file w' = calibration_file w"
  using capture_pass_props [of known fmt f w] by blast

lemma capture_pass_stdout:
  "0 < known \<Longrightarrow> capture_pass fmt known f w = p \<Longrightarrow>
     CouldNotObtain \<in> set (stdout (world_after p)) \<Longrightarrow> CouldNotObtain \<in> set (stdout w)"
  using capture_pass_props [of known fmt f w] by blast

lemma capture_loop_props:
  assumes "0 < known"
  shows "capture_loop fmt known w frames = (r, w', frames') \<Longrightarrow>
     (\<forall>e. r \<noteq> Raises e)
     \<and> (\<forall>fl. r = Returns fl \<longrightarrow> 0 < fl \<and> calibration_file w' = Some (calibration_text fmt fl known))
     \<and> (r = Waits \<longrightarrow> calibration_file w' = calibration_file w)
     \<and> (CouldNotObtain \<in> set (stdout w') \<longrightarrow> CouldNotObtain \<in> set (stdout w))"
proof (induction frames arbitrary: w)
  case Nil
  then show ?case by auto
next
  case (Cons f frames)
  show ?case
  proof (cases "capture_pass fmt known f w")
    case (Continue w1)
    with Cons.prems have "capture_loop fmt known w1 frames = (r, w', frames')" by simp
    note ih = Cons.IH [OF this]
    have 1: "calibration_file w1 = calibration_file w"
      using assms Continue by (rule capture_pass_continue_file)
    have 2: "CouldNotObtain \<in> set (stdout w1) \<Longrightarrow> CouldNotObtain \<in> set (stdout w)"
      using capture_pass_stdout [OF assms Continue] by simp
    from ih [unfolded 1] 2 show ?thesis by blast
  next
    case (Break fl w1)
    with Cons.prems have r: "r = Returns fl" "w' = w1" by simp_all
    have 1: "0 < fl \<and> calibration_file w1 = Some (calibration_text fmt fl known)"
      using assms Break by (rule capture_pass_break)
    have 2: "CouldNotObtain \<in> set (stdout w1) \<Longrightarrow> CouldNotObtain \<in> set (stdout w)"
      using capture_pass_stdout [OF assms Break] by simp
    from r 1 2 show ?thesis by simp
  next
    case (Abort e w1)
    with capture_pass_no_abort [OF assms] show ?thesis by blast
  qed
qed

lemma calibrate_props:
  assumes "calibrate fmt pyfloat w lines frames = (r, w', lines', frames')"
  shows "(\<forall>e. r \<noteq> Raises e)
     \<and> (\<forall>fl kw. r = Returns (fl, kw) \<longrightarrow>
           0 < fl \<and> 0 < kw \<and> calibration_file w' = Some (calibration_text fmt fl kw))
     \<and> (r = Waits \<longrightarrow> calibration_file w' = calibration_file w)
     \<and> (CouldNotObtain \<in> set (stdout w') \<longrightarrow> CouldNotObtain \<in> set (stdout w))"
proof -
  obtain r1 w1 lines1 where a: "ask_hand_width pyfloat (print StartingCalibration w) lines = (r1, w1, lines1)"
    by (metis prod_cases3)
  note pa = ask_hand_width_props [OF a]
  show ?thesis
  proof (cases r1)
    case (Returns known)
    with pa have k: "0 < known" by simp
    let ?w2 = "print PressCToCapture (print EnsurePalmFacing (print PlaceHandAtDistance w1))"
    obtain r2 w2 frames2 where c: "capture_loop fmt known ?w2 frames = (r2, w2, frames2)"
      by (metis prod_cases3)
    note pc = capture_loop_props [OF k c]
    show ?thesis
    proof (cases r2)
      case r2: (Returns fl)
      with assms a Returns c have "r = Returns (fl, known)" "w' = w2"
        by (simp_all add: calibrate_def)
      with pc pa r2 k show ?thesis by simp
    next
      case r2: (Raises e)
      with pc show ?thesis by simp
    next
      case r2: Waits
      with assms a Returns c have "r = Waits" "w' = w2"
        by (simp_all add: calibrate_def)
      with pc pa r2 show ?thesis by simp
    qed
  next
    case (Raises e)
    with pa show ?thesis by simp
  next
    case Waits
    with assms a pa show ?thesis by (auto simp: calibrate_def)
  qed
qed

lemma read_calibration_file_error:
  "calibration_file w \<noteq> None \<Longrightarrow> read_calibration_file pyfloat w = Inl e \<Longrightarrow> e = ValueError"
  by (auto simp: read_calibration_file_def py_float_def Let_def
      split: option.splits prod.splits sum.splits)

lemma read_calibration_file_corrupt:
  assumes "calibration_file w = Some content"
    and "pyfloat (py_strip (fst (readline content))) = None
         \<or> pyfloat (py_strip (fst (readline (snd (readline content))))) = None"
  shows "read_calibration_file pyfloat w = Inl ValueError"
  using assms
  by (auto simp: read_calibration_file_def py_float_def Let_def
      split: option.splits prod.splits sum.splits)

lemma returned_pair_props:
  assumes "returned_pair (calibrate fmt pyfloat w lines frames) = (r, w', lines', frames')"
  shows "(\<forall>e. r \<noteq> Raises e)
     \<and> (\<forall>a b. r = Returns (a, b) \<longrightarrow>
           (\<exists>fl kw. a = Some fl \<and> b = Some kw \<and> 0 < fl \<and> 0 < kw
              \<and> calibration_file w' = Some (calibration_text fmt fl kw)))
     \<and> (CouldNotObtain \<in> set (stdout w') \<longrightarrow> CouldNotObtain \<in> set (stdout w))"
proof -
  obtain r0 w0 lines0 frames0 where c: "calibrate fmt pyfloat w lines frames = (r0, w0, lines0, frames0)"
    by (metis prod_cases4)
  note p = calibrate_props [OF c]
  show ?thesis
  proof (cases r0)
    case (Returns pair)
    obtain fl kw where "pair = (fl, kw)" by (cases pair) auto
    with Returns c assms have "r = Returns (Some fl, Some kw)" "w' = w0" "r0 = Returns (fl, kw)"
      by simp_all
    with p show ?thesis by simp
  next
    case (Raises e)
    with p show ?thesis by simp
  next
    case Waits
    with c assms have "r = Waits" "w' = w0" by simp_all
    with p show ?thesis by simp
  qed
qed

lemma choice_loop_props:
  "calibration_file w \<noteq> None \<Longrightarrow> choice_loop fmt pyfloat w lines frames = (r, w', lines', frames') \<Longrightarrow>
     (\<forall>e. r \<noteq> Raises e)
     \<and> (\<forall>a b. r = Returns (a, b) \<longrightarrow>
           (\<exists>fl kw. a = Some fl \<and> b = Some kw
              \<and> (0 < fl \<and> 0 < kw \<and> calibration_file w' = Some (calibration_text fmt fl kw)
                  \<or> read_calibration_file pyfloat w = Inr (fl, kw)
                     \<and> calibration_file w' = calibration_file w)))
     \<and> (CouldNotObtain \<in> set (stdout w') \<longrightarrow> CouldNotObtain \<in> set (stdout w))"
proof (induction lines arbitrary: w)
  case Nil
  then show ?case by auto
next
  case (Cons line lines)
  let ?w1 = "print PromptChoice w"
  show ?case
  proof (cases "py_lower line = ''y''")
    case yes: True
    show ?thesis
    proof (cases "read_calibration_file pyfloat w")
      case (Inr pair)
      obtain fl kw where pr: "pair = (fl, kw)" by (cases pair) auto
      with Inr yes Cons.prems(2) have "r = Returns (Some fl, Some kw)" "w' = print LoadedCalibration ?w1"
        by (simp_all add: Let_def)
      with Inr pr show ?thesis by simp
    next
      case (Inl e)
      with Cons.prems(1) have "e = ValueError" by (rule read_calibration_file_error)
      with Inl yes Cons.prems(2) have
        "returned_pair (calibrate fmt pyfloat (print FileCorrupt ?w1) lines frames) = (r, w', lines', frames')"
        by (simp add: Let_def)
      from returned_pair_props [OF this] show ?thesis by auto
    qed
  next
    case not_yes: False
    show ?thesis
    proof (cases "py_lower line = ''n''")
      case True
      with not_yes Cons.prems(2) have
        "returned_pair (calibrate fmt pyfloat ?w1 lines frames) = (r, w', lines', frames')"
        by (simp add: Let_def)
      from returned_pair_props [OF this] show ?thesis by auto
    next
      case False
      with not_yes Cons.prems(2) have
        c: "choice_loop fmt pyfloat (print InvalidChoice ?w1) lines frames = (r, w', lines', frames')"
        by (simp add: Let_def)
      have "calibration_file (print InvalidChoice ?w1) \<noteq> None"
        using Cons.prems(1) by simp
      from Cons.IH [OF this c] show ?thesis by simp
    qed
  qed
qed

lemma get_calibration_data_props:
  assumes "get_calibration_data fmt pyfloat w lines frames = (r, w', lines', frames')"
  shows "(\<forall>e. r \<noteq> Raises e)
     \<and> (\<forall>a b. r = Returns (a, b) \<longrightarrow>
           (\<exists>fl kw. a = Some fl \<and> b = Some kw
              \<and> (0 < fl \<and> 0 < kw \<and> calibration_file w' = Some (calibration_text fmt fl kw)
                  \<or> read_calibration_file pyfloat w = Inr (fl, kw)
                     \<and> calibration_file w' = calibration_file w)))
     \<and> (CouldNotObtain \<in> set (stdout w') \<longrightarrow> CouldNotObtain \<in> set (stdout w))"
proof (cases "calibration_file w")
  case None
  with assms have
    "returned_pair (calibrate fmt pyfloat (print NoCalibrationFile w) lines frames) = (r, w', lines', frames')"
    by (simp add: get_calibration_data_def)
  from returned_pair_props [OF this] show ?thesis by auto
next
  case (Some content)
  with assms have c: "choice_loop fmt pyfloat w lines frames = (r, w', lines', frames')"
    by (simp add: get_calibration_data_def)
  from Some have "calibration_file w \<noteq> None" by simp
  from choice_loop_props [OF this c] show ?thesis .
qed

section \<open>Worked runs\<close>

lemma sample_hand_details:
  "get_hand_details (hand_spanning (1/4) (7/16)) 640 480 = Inr (120, (160, 240, 280, 360))"
  by (simp add: get_hand_details_eq pixel_xs_def pixel_ys_def hand_spanning_def py_int_def)

lemma sample_float: "float_of_decimal ''8.0'' = Some 8"
  by (simp add: float_of_decimal_def py_strip_def py_isspace_def digit_val_def)

lemma sample_calibration:
  "fst (calibrate repr_whole float_of_decimal w [''8.0''] [frame_with [hand_spanning (1/4) (7/16)] 99])
     = Returns (450, 8)"
  by (simp add: calibrate_def py_float_def sample_float capture_pass_def frame_with_def
      calibration_overlays_def sample_hand_details py_truediv_def KNOWN_DISTANCE_FOR_CALIBRATION_def)

lemma fst_returned_pair:
  "fst c = Returns (a, b) \<Longrightarrow> fst (returned_pair c) = Returns (Some a, Some b)"
  by (cases c) simp

lemma calibration_file_fresh_world: "calibration_file (fresh_world c) = c"
  by (simp add: fresh_world_def)

lemma sample_yes: "py_lower ''y'' = ''y''"
  by code_simp

section \<open>Loading and storing the calibration\<close>

text \<open>
  C3. For every calibration record, the text written to the file (the focal length on
  line 1, the hand width on line 2) is read back by the load path as the same pair,
  provided the two numbers survive the runtime's own formatting and parsing (the
  serialization precision of floats, which is the runtime's and not the program's) and the
  formatted numbers contain no newline.
\<close>

theorem calibration_file_round_trip:
  assumes "CHR 0x0A \<notin> set (fmt focal_length)" and "CHR 0x0A \<notin> set (fmt known_hand_width_cm)"
    and "pyfloat (py_strip (fmt focal_length)) = Some focal_length"
    and "pyfloat (py_strip (fmt known_hand_width_cm)) = Some known_hand_width_cm"
    and "calibration_file w = Some (calibration_text fmt focal_length known_hand_width_cm)"
    and "py_lower answer = ''y''"
  shows "calibration_text fmt focal_length known_hand_width_cm
           = fmt focal_length @ [CHR 0x0A] @ fmt known_hand_width_cm @ [CHR 0x0A]
         \<and> read_calibration_file pyfloat w = Inr (focal_length, known_hand_width_cm)
         \<and> fst (get_calibration_data fmt pyfloat w (answer # lines) frames)
             = Returns (Some focal_length, Some known_hand_width_cm)"
proof -
  have r: "read_calibration_file pyfloat w = Inr (focal_length, known_hand_width_cm)"
    using assms(1-5) by (rule read_calibration_text)
  then have "fst (get_calibration_data fmt pyfloat w (answer # lines) frames)
             = Returns (Some focal_length, Some known_hand_width_cm)"
    using assms(5,6) by (simp add: get_calibration_data_def Let_def)
  with r show ?thesis by (simp add: calibration_text_def)
qed

theorem calibration_file_round_trip_witness:
  "calibration_text repr_whole 450 8 = ''450.0\<newline>8.0\<newline>''
   \<and> read_calibration_file float_of_decimal (fresh_world (Some (calibration_text repr_whole 450 8)))
       = Inr (450, 8)
   \<and> fst (get_calibration_data repr_whole float_of_decimal
             (fresh_world (Some (calibration_text repr_whole 450 8))) [''Y''] [])
       = Returns (Some 450, Some 8)"
proof -
  have r1: "repr_whole 450 = ''450.0''"
    by (simp add: repr_whole_def decimal_digits.simps)
  have r2: "repr_whole 8 = ''8.0''"
    by (simp add: repr_whole_def decimal_digits.simps)
  have p1: "float_of_decimal (py_strip ''450.0'') = Some 450"
    by (simp add: float_of_decimal_def py_strip_def py_isspace_def digit_val_def)
  have p2: "float_of_decimal (py_strip ''8.0'') = Some 8"
    by (simp add: float_of_decimal_def py_strip_def py_isspace_def digit_val_def)
  have y: "py_lower ''Y'' = ''y''"
    by code_simp
  have f: "calibration_file (fresh_world (Some (calibration_text repr_whole 450 8)))
            = Some (calibration_text repr_whole 450 8)"
    by (simp add: fresh_world_def)
  have n1: "CHR 0x0A \<notin> set (repr_whole 450)" by (simp add: r1)
  have n2: "CHR 0x0A \<notin> set (repr_whole 8)" by (simp add: r2)
  have q1: "float_of_decimal (py_strip (repr_whole 450)) = Some 450"
    unfolding r1 by (rule p1)
  have q2: "float_of_decimal (py_strip (repr_whole 8)) = Some 8"
    unfolding r2 by (rule p2)
  have c: "calibration_text repr_whole 450 8 = ''450.0\<newline>8.0\<newline>''"
    by (simp add: calibration_text_def r1 r2)
  from calibration_file_round_trip [OF n1 n2 q1 q2 f y, of "[]" "[]"] c
  show ?thesis by blast
qed

text \<open>
  C4. When the first or the second line of the calibration file does not parse as a float
  (a missing second line and an empty file included, since they leave the empty string
  to parse), answering \<^verbatim>\<open>y\<close> does not raise: \<^verbatim>\<open>get_calibration_data\<close> reports the file
  as corrupt, runs the calibration and returns its result.
\<close>

theorem corrupt_file_recalibrates:
  assumes "calibration_file w = Some content"
    and "pyfloat (py_strip (fst (readline content))) = None
         \<or> pyfloat (py_strip (fst (readline (snd (readline content))))) = None"
    and "py_lower answer = ''y''"
  shows "get_calibration_data fmt pyfloat w (answer # lines) frames
           = returned_pair (calibrate fmt pyfloat (print FileCorrupt (print PromptChoice w)) lines frames)
         \<and> (\<forall>e. fst (get_calibration_data fmt pyfloat w (answer # lines) frames) \<noteq> Raises e)"
proof -
  have "read_calibration_file pyfloat w = Inl ValueError"
    using assms(1,2) by (rule read_calibration_file_corrupt)
  then have 1: "get_calibration_data fmt pyfloat w (answer # lines) frames
           = returned_pair (calibrate fmt pyfloat (print FileCorrupt (print PromptChoice w)) lines frames)"
    using assms(1,3) by (simp add: get_calibration_data_def Let_def)
  obtain r w' lines' frames' where
    g: "get_calibration_data fmt pyfloat w (answer # lines) frames = (r, w', lines', frames')"
    by (metis prod_cases4)
  from get_calibration_data_props [OF g] have "\<forall>e. r \<noteq> Raises e" by blast
  with g 1 show ?thesis by simp
qed

theorem corrupt_file_recalibrates_witness:
  "fst (get_calibration_data repr_whole float_of_decimal
          (fresh_world (Some (''abc\<newline>8.0\<newline>'')))
          [''y'', ''8.0''] [frame_with [hand_spanning (1/4) (7/16)] 99])
     = Returns (Some 450, Some 8)
   \<and> fst (get_calibration_data repr_whole float_of_decimal
          (fresh_world (Some (''450.0\<newline>'')))
          [''y'', ''8.0''] [frame_with [hand_spanning (1/4) (7/16)] 99])
     = Returns (Some 450, Some 8)
   \<and> fst (get_calibration_data repr_whole float_of_decimal
          (fresh_world (Some []))
          [''y'', ''8.0''] [frame_with [hand_spanning (1/4) (7/16)] 99])
     = Returns (Some 450, Some 8)"
proof -
  have f: "\<And>c. calibration_file (fresh_world (Some c)) = Some c"
    by (simp add: fresh_world_def)
  have c1: "float_of_decimal (py_strip (fst (readline (''abc\<newline>8.0\<newline>'')))) = None
      \<or> float_of_decimal (py_strip (fst (readline (snd (readline (''abc\<newline>8.0\<newline>'')))))) = None"
    by (simp add: readline_def float_of_decimal_def py_strip_def py_isspace_def digit_val_def)
  have c2: "float_of_decimal (py_strip (fst (readline (''450.0\<newline>'')))) = None
      \<or> float_of_decimal (py_strip (fst (readline (snd (readline (''450.0\<newline>'')))))) = None"
    by (simp add: readline_def float_of_decimal_def py_strip_def py_isspace_def digit_val_def)
  have c3: "float_of_decimal (py_strip (fst (readline []))) = None
      \<or> float_of_decimal (py_strip (fst (readline (snd (readline []))))) = None"
    by (simp add: readline_def float_of_decimal_def py_strip_def py_isspace_def digit_val_def)
  note t1 = corrupt_file_recalibrates [OF f c1 sample_yes, of repr_whole "[''8.0'']"
      "[frame_with [hand_spanning (1/4) (7/16)] 99]"]
  note t2 = corrupt_file_recalibrates [OF f c2 sample_yes, of repr_whole "[''8.0'']"
      "[frame_with [hand_spanning (1/4) (7/16)] 99]"]
  note t3 = corrupt_file_recalibrates [OF f c3 sample_yes, of repr_whole "[''8.0'']"
      "[frame_with [hand_spanning (1/4) (7/16)] 99]"]
  from t1 t2 t3 show ?thesis
    by (simp add: fst_returned_pair [OF sample_calibration])
qed

text \<open>
  C8, as stated, fails for loaded records: the load path returns whatever two numbers
  the file holds. A file with the lines \<^verbatim>\<open>-450.0\<close> and \<^verbatim>\<open>-8.0\<close> is loaded as the record
  \<open>(-450, -8)\<close>.
\<close>

theorem loaded_record_not_positive:
  "fst (get_calibration_data repr_whole float_of_decimal
          (fresh_world (Some (''-450.0\<newline>-8.0\<newline>''))) [''y''] [])
     = Returns (Some (- 450), Some (- 8))
   \<and> (- 450 :: real) \<le> 0 \<and> (- 8 :: real) \<le> 0"
  by (simp add: get_calibration_data_def fresh_world_def sample_yes Let_def print_def
      read_calibration_file_def readline_def py_float_def
      float_of_decimal_def py_strip_def py_isspace_def digit_val_def)

text \<open>
  C8, amended. Every record that \<^verbatim>\<open>calibrate\<close> returns has a positive focal length and
  a positive hand width. A record that \<^verbatim>\<open>get_calibration_data\<close> returns either comes
  from \<^verbatim>\<open>calibrate\<close> and is positive, or is the pair of numbers parsed from the first two
  lines of the existing file, which is not checked for positivity.
\<close>

theorem calibration_record_positive:
  "(calibrate fmt pyfloat w lines frames = (Returns (focal_length, known_hand_width_cm), w', lines', frames')
      \<longrightarrow> 0 < focal_length \<and> 0 < known_hand_width_cm)
   \<and> (get_calibration_data fmt pyfloat v input video = (Returns (a, b), v', input', video')
      \<longrightarrow> (\<exists>fl kw. a = Some fl \<and> b = Some kw
             \<and> (0 < fl \<and> 0 < kw \<or> read_calibration_file pyfloat v = Inr (fl, kw))))"
proof -
  have 1: "0 < focal_length \<and> 0 < known_hand_width_cm"
    if "calibrate fmt pyfloat w lines frames = (Returns (focal_length, known_hand_width_cm), w', lines', frames')"
    using calibrate_props [OF that] by simp
  have 2: "\<exists>fl kw. a = Some fl \<and> b = Some kw
             \<and> (0 < fl \<and> 0 < kw \<or> read_calibration_file pyfloat v = Inr (fl, kw))"
    if "get_calibration_data fmt pyfloat v input video = (Returns (a, b), v', input', video')"
    using get_calibration_data_props [OF that] by blast
  from 1 2 show ?thesis by blast
qed

theorem calibration_record_positive_witness:
  "fst (calibrate repr_whole float_of_decimal (fresh_world None) [''8.0'']
          [frame_with [hand_spanning (1/4) (7/16)] 99]) = Returns (450, 8)
   \<and> fst (get_calibration_data repr_whole float_of_decimal
          (fresh_world (Some (''450.0\<newline>8.0\<newline>''))) [''y''] [])
       = Returns (Some 450, Some 8)
   \<and> read_calibration_file float_of_decimal
          (fresh_world (Some (''450.0\<newline>8.0\<newline>''))) = Inr (450, 8)"
proof -
  let ?c = "calibrate repr_whole float_of_decimal (fresh_world None) [''8.0'']
          [frame_with [hand_spanning (1/4) (7/16)] 99]"
  let ?v = "fresh_world (Some (''450.0\<newline>8.0\<newline>''))"
  let ?g = "get_calibration_data repr_whole float_of_decimal ?v [''y''] []"
  have r: "read_calibration_file float_of_decimal ?v = Inr (450, 8)"
    by (simp add: fresh_world_def read_calibration_file_def readline_def py_float_def
      float_of_decimal_def py_strip_def py_isspace_def digit_val_def)
  have g: "fst ?g = Returns (Some 450, Some 8)"
    by (simp add: get_calibration_data_def calibration_file_fresh_world sample_yes Let_def r)
  have c: "?c = (Returns (450, 8), fst (snd ?c), fst (snd (snd ?c)), snd (snd (snd ?c)))"
    using sample_calibration [of "fresh_world None"] by (cases ?c) simp
  have g': "?g = (Returns (Some 450, Some 8), fst (snd ?g), fst (snd (snd ?g)), snd (snd (snd ?g)))"
    using g by (cases ?g) simp
  from calibration_record_positive [of repr_whole float_of_decimal "fresh_world None" "[''8.0'']"
      "[frame_with [hand_spanning (1/4) (7/16)] 99]" 450 8 "fst (snd ?c)" "fst (snd (snd ?c))"
      "snd (snd (snd ?c))" ?v "[''y'']" "[]" "Some 450" "Some 8" "fst (snd ?g)" "fst (snd (snd ?g))"
      "snd (snd (snd ?g))"] c g' r
  show ?thesis using sample_calibration [of "fresh_world None"] g by blast
qed

section \<open>The runtime loop and the whole program\<close>

lemma runtime_overlays_total: "\<exists>ovs. runtime_overlays focal_length known_hand_width f = Inr ovs"
  by (cases "multi_hand_landmarks f")
    (simp_all add: runtime_overlays_def get_hand_details_eq estimate_distance_def py_truediv_def)

lemma runtime_pass_props:
  "(\<forall>e w'. runtime_pass focal_length known_hand_width f w \<noteq> Abort e w')
   \<and> stdout (world_after (runtime_pass focal_length known_hand_width f w)) = stdout w"
proof -
  obtain ovs where "runtime_overlays focal_length known_hand_width f = Inr ovs"
    using runtime_overlays_total by blast
  then show ?thesis by (simp add: runtime_pass_def Let_def)
qed

lemma runtime_loop_props:
  "runtime_loop focal_length known_hand_width w frames = (r, w', frames') \<Longrightarrow>
     (\<forall>e. r \<noteq> Raises e) \<and> stdout w' = stdout w"
proof (induction frames arbitrary: w)
  case Nil
  then show ?case by auto
next
  case (Cons f frames)
  note p = runtime_pass_props [of focal_length known_hand_width f w]
  show ?case
  proof (cases "is_opened f")
    case False
    with Cons.prems show ?thesis by auto
  next
    case True
    show ?thesis
    proof (cases "runtime_pass focal_length known_hand_width f w")
      case (Continue w1)
      with True Cons.prems have "runtime_loop focal_length known_hand_width w1 frames = (r, w', frames')"
        by simp
      from Cons.IH [OF this] have "(\<forall>e. r \<noteq> Raises e) \<and> stdout w' = stdout w1" .
      moreover from p Continue have "stdout w1 = stdout w" by simp
      ultimately show ?thesis by simp
    next
      case (Break u w1)
      with True Cons.prems have "r = Returns ()" "w' = w1" by simp_all
      moreover from p Break have "stdout w1 = stdout w" by simp
      ultimately show ?thesis by simp
    next
      case (Abort e w1)
      with p show ?thesis by simp
    qed
  qed
qed

lemma main_stdout:
  assumes "CouldNotObtain \<notin> set (stdout w)"
  shows "CouldNotObtain \<notin> set (stdout (fst (snd (main fmt pyfloat w lines frames))))"
proof -
  obtain r w1 lines1 frames1 where
    g: "get_calibration_data fmt pyfloat w lines frames = (r, w1, lines1, frames1)"
    by (metis prod_cases4)
  note p = get_calibration_data_props [OF g]
  from p assms have w1: "CouldNotObtain \<notin> set (stdout w1)" by blast
  show ?thesis
  proof (cases r)
    case (Returns pair)
    obtain a b where pair: "pair = (a, b)" by (cases pair) auto
    with p Returns obtain fl kw where ab: "a = Some fl" "b = Some kw" by blast
    obtain r2 w2 frames2 where
      l: "runtime_loop fl kw (print StartingEstimation w1) frames1 = (r2, w2, frames2)"
      by (metis prod_cases3)
    from runtime_loop_props [OF l] have s: "stdout w2 = stdout w1 @ [StartingEstimation]" by simp
    have "fst (snd (main fmt pyfloat w lines frames))
            = (case r2 of Returns u \<Rightarrow> print ProgramFinished w2 | Raises e \<Rightarrow> w2 | Waits \<Rightarrow> w2)"
      by (simp add: main_def g Returns pair ab l split: outcome.splits)
    with s w1 show ?thesis by (cases r2) simp_all
  next
    case (Raises e)
    with g w1 show ?thesis by (simp add: main_def)
  next
    case Waits
    with g w1 show ?thesis by (simp add: main_def)
  qed
qed

text \<open>
  C9. A run of \<^verbatim>\<open>get_calibration_data\<close> that returns gives a pair in which neither
  component is \<^verbatim>\<open>None\<close>, and \<^verbatim>\<open>main\<close> never prints \<^verbatim>\<open>Could not obtain calibration data\<close>:
  without a calibration file, and when the stored calibration is declined, the result is
  that of \<^verbatim>\<open>calibrate\<close>.
\<close>

theorem calibration_data_never_missing:
  "(get_calibration_data fmt pyfloat w lines frames
       = (Returns (focal_length, known_hand_width), w', lines', frames')
      \<longrightarrow> focal_length \<noteq> None \<and> known_hand_width \<noteq> None)
   \<and> (CouldNotObtain \<notin> set (stdout w)
      \<longrightarrow> CouldNotObtain \<notin> set (stdout (fst (snd (main fmt pyfloat w lines frames)))))
   \<and> (calibration_file w = None
      \<longrightarrow> get_calibration_data fmt pyfloat w lines frames
           = returned_pair (calibrate fmt pyfloat (print NoCalibrationFile w) lines frames))
   \<and> (calibration_file w \<noteq> None \<and> py_lower answer = ''n''
      \<longrightarrow> get_calibration_data fmt pyfloat w (answer # lines) frames
           = returned_pair (calibrate fmt pyfloat (print PromptChoice w) lines frames))"
proof -
  have 1: "focal_length \<noteq> None \<and> known_hand_width \<noteq> None"
    if "get_calibration_data fmt pyfloat w lines frames
       = (Returns (focal_length, known_hand_width), w', lines', frames')"
    using get_calibration_data_props [OF that] by auto
  have 2: "CouldNotObtain \<notin> set (stdout (fst (snd (main fmt pyfloat w lines frames))))"
    if "CouldNotObtain \<notin> set (stdout w)"
    using that by (rule main_stdout)
  have 3: "get_calibration_data fmt pyfloat w lines frames
           = returned_pair (calibrate fmt pyfloat (print NoCalibrationFile w) lines frames)"
    if "calibration_file w = None"
    using that by (simp add: get_calibration_data_def)
  have 4: "get_calibration_data fmt pyfloat w (answer # lines) frames
           = returned_pair (calibrate fmt pyfloat (print PromptChoice w) lines frames)"
    if "calibration_file w \<noteq> None \<and> py_lower answer = ''n''"
    using that by (simp add: get_calibration_data_def Let_def)
  from 1 2 3 4 show ?thesis by blast
qed

theorem calibration_data_never_missing_witness:
  "fst (get_calibration_data repr_whole float_of_decimal (fresh_world None) [''8.0'']
          [frame_with [hand_spanning (1/4) (7/16)] 99, frame_with [] 113])
     = Returns (Some 450, Some 8)
   \<and> fst (main repr_whole float_of_decimal (fresh_world None) [''8.0'']
          [frame_with [hand_spanning (1/4) (7/16)] 99, frame_with [] 113]) = Returns ()
   \<and> stdout (fst (snd (main repr_whole float_of_decimal (fresh_world None) [''8.0'']
          [frame_with [hand_spanning (1/4) (7/16)] 99, frame_with [] 113])))
     = [NoCalibrationFile, StartingCalibration, PromptHandWidth, PlaceHandAtDistance,
        EnsurePalmFacing, PressCToCapture, CalibrationSuccessful 450, SavedToFile,
        StartingEstimation, ProgramFinished]"
proof -
  let ?fs = "[frame_with [hand_spanning (1/4) (7/16)] 99, frame_with [] 113]"
  have c: "calibrate repr_whole float_of_decimal (print NoCalibrationFile (fresh_world None)) [''8.0''] ?fs
     = (Returns (450, 8),
        \<lparr>calibration_file = Some (calibration_text repr_whole 450 8),
         stdout = [NoCalibrationFile, StartingCalibration, PromptHandWidth, PlaceHandAtDistance,
                   EnsurePalmFacing, PressCToCapture, CalibrationSuccessful 450, SavedToFile],
         shown = [[Rectangle (160, 240) (280, 360), PixelWidthText 120 (160, 230), PlaceHandText]]\<rparr>,
        [], [frame_with [] 113])"
    by (simp add: calibrate_def py_float_def sample_float capture_pass_def frame_with_def
      calibration_overlays_def sample_hand_details py_truediv_def KNOWN_DISTANCE_FOR_CALIBRATION_def
      fresh_world_def print_def imshow_def write_file_def)
  have g: "get_calibration_data repr_whole float_of_decimal (fresh_world None) [''8.0''] ?fs
     = (Returns (Some 450, Some 8),
        \<lparr>calibration_file = Some (calibration_text repr_whole 450 8),
         stdout = [NoCalibrationFile, StartingCalibration, PromptHandWidth, PlaceHandAtDistance,
                   EnsurePalmFacing, PressCToCapture, CalibrationSuccessful 450, SavedToFile],
         shown = [[Rectangle (160, 240) (280, 360), PixelWidthText 120 (160, 230), PlaceHandText]]\<rparr>,
        [], [frame_with [] 113])"
    using calibration_data_never_missing [of repr_whole float_of_decimal "fresh_world None"
        "[''8.0'']" ?fs "Some 450" "Some 8"]
    by (simp add: calibration_file_fresh_world c)
  have m: "main repr_whole float_of_decimal (fresh_world None) [''8.0''] ?fs
     = (Returns (),
        \<lparr>calibration_file = Some (calibration_text repr_whole 450 8),
         stdout = [NoCalibrationFile, StartingCalibration, PromptHandWidth, PlaceHandAtDistance,
                   EnsurePalmFacing, PressCToCapture, CalibrationSuccessful 450, SavedToFile,
                   StartingEstimation, ProgramFinished],
         shown = [[Rectangle (160, 240) (280, 360), PixelWidthText 120 (160, 230), PlaceHandText], []]\<rparr>,
        [], [])"
    unfolding main_def g
    by (simp add: runtime_pass_def runtime_overlays_def frame_with_def print_def imshow_def)
  from g m show ?thesis by simp
qed

end
